theory Spec2Isabelle
  imports Complex_Main "HOL-Library.Sublist"
begin

section \<open>HR sentiment dashboard (app.py): a shallow embedding\<close>

text \<open>
  The program is a Streamlit page. Each view function is modelled as a function from the
  session state and the widget inputs of one render pass to the list of things it
  displays and the collaborator methods it calls, in order (a trace of \<open>event\<close>s),
  the session state afterwards, and the exception that left the function, if any.

  Python text is modelled as \<open>string\<close>; a character outside ASCII is written as its
  UTF-8 bytes. Substring tests (\<open>in\<close>) are \<open>sublist\<close>, which on well-formed UTF-8
  agrees with the test on code points.
\<close>

subsection \<open>Characters outside ASCII used by the page\<close>

abbreviation (input) U_warning :: string where
  "U_warning \<equiv> [CHR 0xE2, CHR 0x9A, CHR 0xA0, CHR 0xEF, CHR 0xB8, CHR 0x8F]"
abbreviation (input) U_info :: string where
  "U_info \<equiv> [CHR 0xE2, CHR 0x84, CHR 0xB9, CHR 0xEF, CHR 0xB8, CHR 0x8F]"
abbreviation (input) U_check :: string where
  "U_check \<equiv> [CHR 0xE2, CHR 0x9C, CHR 0x85]"
abbreviation (input) U_cross :: string where
  "U_cross \<equiv> [CHR 0xE2, CHR 0x9D, CHR 0x8C]"
abbreviation (input) U_chart :: string where
  "U_chart \<equiv> [CHR 0xF0, CHR 0x9F, CHR 0x93, CHR 0x8A]"
abbreviation (input) U_folder :: string where
  "U_folder \<equiv> [CHR 0xF0, CHR 0x9F, CHR 0x93, CHR 0x82]"
abbreviation (input) U_reload :: string where
  "U_reload \<equiv> [CHR 0xF0, CHR 0x9F, CHR 0x94, CHR 0x84]"
abbreviation (input) U_people :: string where
  "U_people \<equiv> [CHR 0xF0, CHR 0x9F, CHR 0x91, CHR 0xA5]"
abbreviation (input) U_smile :: string where
  "U_smile \<equiv> [CHR 0xF0, CHR 0x9F, CHR 0x98, CHR 0x8A]"
abbreviation (input) U_trophy :: string where
  "U_trophy \<equiv> [CHR 0xF0, CHR 0x9F, CHR 0x8F, CHR 0x86]"
abbreviation (input) U_robot :: string where
  "U_robot \<equiv> [CHR 0xF0, CHR 0x9F, CHR 0xA4, CHR 0x96]"
abbreviation (input) U_trend :: string where
  "U_trend \<equiv> [CHR 0xF0, CHR 0x9F, CHR 0x93, CHR 0x88]"
abbreviation (input) U_target :: string where
  "U_target \<equiv> [CHR 0xF0, CHR 0x9F, CHR 0x8E, CHR 0xAF]"
abbreviation (input) U_speech :: string where
  "U_speech \<equiv> [CHR 0xF0, CHR 0x9F, CHR 0x92, CHR 0xAC]"
abbreviation (input) U_wrench :: string where
  "U_wrench \<equiv> [CHR 0xF0, CHR 0x9F, CHR 0x94, CHR 0xA7]"
abbreviation (input) U_pie :: string where
  "U_pie \<equiv> [CHR 0xF0, CHR 0x9F, CHR 0xA5, CHR 0xA7]"
abbreviation (input) U_brain :: string where
  "U_brain \<equiv> [CHR 0xF0, CHR 0x9F, CHR 0xA7, CHR 0xA0]"
abbreviation (input) U_pin :: string where
  "U_pin \<equiv> [CHR 0xF0, CHR 0x9F, CHR 0x93, CHR 0x8C]"
abbreviation (input) NL :: string where
  "NL \<equiv> [CHR 0x0A]"

subsection \<open>Python values and exceptions\<close>

text \<open>
  The values a response of the AI client can be: \<open>None\<close>, a boolean, an integer, text,
  a list, or an instance of a class, given by the class name and its attributes in
  definition order. Instances are plain data: reading an attribute runs no code.
\<close>

datatype pyval =
    PNone
  | PBool bool
  | PInt int
  | PStr string
  | PList "pyval list"
  | PObj string "(string \<times> pyval) list"

text \<open>
  Exceptions. \<open>RerunException\<close> is Streamlit's control-flow signal raised by
  \<open>st.rerun()\<close>; like \<open>KeyboardInterrupt\<close> it derives from \<open>BaseException\<close>, not from
  \<open>Exception\<close>, so \<open>except Exception\<close> does not catch it. \<open>Raised msg\<close> is an
  \<open>Exception\<close> raised by a collaborator, with its message.
\<close>

datatype exn =
    AttributeError string string
  | TypeError string
  | IndexError string
  | Raised string
  | KeyboardInterrupt
  | RerunException

fun is_Exception :: "exn \<Rightarrow> bool" where
  "is_Exception KeyboardInterrupt = False"
| "is_Exception RerunException = False"
| "is_Exception _ = True"

text \<open>\<open>str(e)\<close>, as the f-strings \<open>{e}\<close> render an exception.\<close>

fun exn_str :: "exn \<Rightarrow> string" where
  "exn_str (AttributeError ty a) =
     [CHR 0x27] @ ty @ [CHR 0x27] @ '' object has no attribute '' @ [CHR 0x27] @ a @ [CHR 0x27]"
| "exn_str (TypeError ty) = [CHR 0x27] @ ty @ [CHR 0x27] @ '' object is not subscriptable''"
| "exn_str (IndexError ty) = ty @ '' index out of range''"
| "exn_str (Raised msg) = msg"
| "exn_str KeyboardInterrupt = []"
| "exn_str RerunException = []"

fun py_type_name :: "pyval \<Rightarrow> string" where
  "py_type_name PNone = ''NoneType''"
| "py_type_name (PBool _) = ''bool''"
| "py_type_name (PInt _) = ''int''"
| "py_type_name (PStr _) = ''str''"
| "py_type_name (PList _) = ''list''"
| "py_type_name (PObj cls _) = cls"

text \<open>Truth value of a value, as \<open>if x\<close> and \<open>not x\<close> test it.\<close>

fun py_truthy :: "pyval \<Rightarrow> bool" where
  "py_truthy PNone = False"
| "py_truthy (PBool b) = b"
| "py_truthy (PInt i) = (i \<noteq> 0)"
| "py_truthy (PStr s) = (s \<noteq> [])"
| "py_truthy (PList xs) = (xs \<noteq> [])"
| "py_truthy (PObj _ _) = True"

text \<open>
  \<open>x.name\<close> for the attribute names the program reads (\<open>candidates\<close>, \<open>content\<close>,
  \<open>parts\<close>, \<open>text\<close>): none of them is an attribute of a built-in value.
\<close>

fun py_getattr :: "pyval \<Rightarrow> string \<Rightarrow> exn + pyval" where
  "py_getattr (PObj cls attrs) a =
     (case map_of attrs a of Some v \<Rightarrow> Inr v | None \<Rightarrow> Inl (AttributeError cls a))"
| "py_getattr v a = Inl (AttributeError (py_type_name v) a)"

definition py_hasattr :: "pyval \<Rightarrow> string \<Rightarrow> bool" where
  "py_hasattr v a = (case py_getattr v a of Inr _ \<Rightarrow> True | Inl _ \<Rightarrow> False)"

text \<open>\<open>x[0]\<close>.\<close>

fun py_item0 :: "pyval \<Rightarrow> exn + pyval" where
  "py_item0 (PList xs) = (case xs of [] \<Rightarrow> Inl (IndexError ''list'') | x # _ \<Rightarrow> Inr x)"
| "py_item0 (PStr s) = (case s of [] \<Rightarrow> Inl (IndexError ''string'') | c # _ \<Rightarrow> Inr (PStr [c]))"
| "py_item0 v = Inl (TypeError (py_type_name v))"

fun isinstance_str :: "pyval \<Rightarrow> bool" where
  "isinstance_str (PStr _) = True"
| "isinstance_str _ = False"

subsection \<open>extract_ai_text\<close>

text \<open>
  Lines 64-67: the probe of the nested shape. \<open>Inr (Some v)\<close> is \<open>return v\<close> at line 67,
  \<open>Inr None\<close> is falling through to line 68, \<open>Inl e\<close> is an exception raised on the way.
\<close>

definition probe_candidates :: "pyval \<Rightarrow> exn + pyval option" where
  "probe_candidates response =
     (if py_hasattr response ''candidates'' then
        (case py_getattr response ''candidates'' of
           Inl e \<Rightarrow> Inl e
         | Inr candidates \<Rightarrow>
             if py_truthy candidates then
               (case py_item0 candidates of
                  Inl e \<Rightarrow> Inl e
                | Inr c0 \<Rightarrow>
                   (case py_getattr c0 ''content'' of
                      Inl e \<Rightarrow> Inl e
                    | Inr content \<Rightarrow>
                       (case py_getattr content ''parts'' of
                          Inl e \<Rightarrow> Inl e
                        | Inr parts \<Rightarrow>
                            if py_truthy parts then
                              (case py_item0 parts of
                                 Inl e \<Rightarrow> Inl e
                               | Inr p0 \<Rightarrow>
                                   if py_hasattr p0 ''text'' then
                                     (case py_getattr p0 ''text'' of
                                        Inl e \<Rightarrow> Inl e
                                      | Inr t \<Rightarrow> Inr (Some t))
                                   else Inr None)
                            else Inr None)))
             else Inr None)
      else Inr None)"

text \<open>Lines 60-70: the body of the \<open>try\<close>.\<close>

definition extract_try :: "pyval \<Rightarrow> exn + pyval" where
  "extract_try response =
     (if \<not> py_truthy response then Inr PNone
      else if isinstance_str response then Inr response
      else
        (case probe_candidates response of
           Inl e \<Rightarrow> Inl e
         | Inr (Some t) \<Rightarrow> Inr t
         | Inr None \<Rightarrow>
             if py_hasattr response ''text'' then py_getattr response ''text''
             else Inr PNone))"

text \<open>
  Lines 59-72: \<open>except Exception as e\<close> turns an \<open>Exception\<close> into the message of
  line 72; anything else leaves the function.
\<close>

definition extract_ai_text :: "pyval \<Rightarrow> exn + pyval" where
  "extract_ai_text response =
     (case extract_try response of
        Inr v \<Rightarrow> Inr v
      | Inl e \<Rightarrow>
          if is_Exception e then Inr (PStr (U_warning @ '' Extraction failed: '' @ exn_str e))
          else Inl e)"

text \<open>
  The shapes of a response in the specification's words, read off the data: the attribute
  of an instance, the first element of a non-empty list or text, and the leaf of the chain
  candidates, first candidate, content, parts, first part, text.
\<close>

fun attr_of :: "pyval \<Rightarrow> string \<Rightarrow> pyval option" where
  "attr_of (PObj cls attrs) a = map_of attrs a"
| "attr_of _ a = None"

fun first_of :: "pyval \<Rightarrow> pyval option" where
  "first_of (PList (x # _)) = Some x"
| "first_of (PStr (c # _)) = Some (PStr [c])"
| "first_of _ = None"

definition nested_leaf :: "pyval \<Rightarrow> pyval option" where
  "nested_leaf response =
     Option.bind (attr_of response ''candidates'') (\<lambda>candidates.
     Option.bind (first_of candidates) (\<lambda>c0.
     Option.bind (attr_of c0 ''content'') (\<lambda>cont.
     Option.bind (attr_of cont ''parts'') (\<lambda>parts.
     Option.bind (first_of parts) (\<lambda>p0. attr_of p0 ''text'')))))"

text \<open>
  The direct \<open>text\<close> attribute if the response has one, and the "no content" value
  otherwise.
\<close>

definition direct_or_none :: "pyval \<Rightarrow> pyval" where
  "direct_or_none response =
     (case attr_of response ''text'' of Some t \<Rightarrow> t | None \<Rightarrow> PNone)"

subsection \<open>Built-in text operations\<close>

text \<open>\<open>str(n)\<close> of a non-negative integer, and of an integer.\<close>

fun str_nat :: "nat \<Rightarrow> string" where
  "str_nat n =
     (if n < 10 then [''0123456789'' ! n]
      else str_nat (n div 10) @ [''0123456789'' ! (n mod 10)])"

declare str_nat.simps [simp del]

definition str_int :: "int \<Rightarrow> string" where
  "str_int i = (if i < 0 then ''-'' @ str_nat (nat (- i)) else str_nat (nat i))"

text \<open>
  \<open>format(x, '.1f')\<close> of a finite number, given by its exact value: the nearest
  multiple of one tenth, a tie going to the even one, written with one decimal.
\<close>

definition round_half_even :: "rat \<Rightarrow> int" where
  "round_half_even y =
     (let f = \<lfloor>y\<rfloor>; d = y - of_int f
      in if d < 1 / 2 then f else if 1 / 2 < d then f + 1
         else if even f then f else f + 1)"

definition format_1f :: "rat \<Rightarrow> string" where
  "format_1f x =
     (let m = nat (round_half_even (\<bar>x\<bar> * 10))
      in (if x < 0 then ''-'' else []) @ str_nat (m div 10) @ ''.'' @ str_nat (m mod 10))"


definition ascii_lower_char :: "char \<Rightarrow> char" where
  "ascii_lower_char c =
     (case map_of (zip ''ABCDEFGHIJKLMNOPQRSTUVWXYZ'' ''abcdefghijklmnopqrstuvwxyz'') c of
        Some l \<Rightarrow> l
      | None \<Rightarrow> c)"

definition ascii_lower :: "string \<Rightarrow> string" where
  "ascii_lower t = map ascii_lower_char t"

text \<open>\<open>sep.join(xs)\<close>.\<close>

fun join_str :: "string \<Rightarrow> string list \<Rightarrow> string" where
  "join_str sep [] = []"
| "join_str sep [x] = x"
| "join_str sep (x # y # ys) = x @ sep @ join_str sep (y # ys)"

text \<open>\<open>d.get(key, default)\<close> on a field that is absent (\<open>None\<close>) or present.\<close>

definition dict_get :: "'a option \<Rightarrow> 'a \<Rightarrow> 'a" where
  "dict_get field dflt = (case field of None \<Rightarrow> dflt | Some v \<Rightarrow> v)"

subsection \<open>Data model\<close>

text \<open>
  An employee record is a dictionary; each key is absent or holds a value of the type the
  data model gives it. The key \<open>id\<close> is the field \<open>emp_id\<close>.
\<close>

record employee =
  emp_id :: "int option"
  employee_name :: "string option"
  role :: "string option"
  sentiment_score :: "rat option"
  quadrant :: "string option"
  content :: "string option"

text \<open>The aggregate summary; its two dictionaries keep their insertion order.\<close>

record summary =
  total_employees :: nat
  average_sentiment :: rat
  quadrant_distribution :: "(string \<times> nat) list"
  sentiment_by_role :: "(string \<times> rat) list"

text \<open>
  The analyzer object. Its \<open>data\<close> attribute may be missing, \<open>None\<close> or a list; the two
  client attributes are read with \<open>getattr(analyzer, name, None)\<close>, so \<open>None\<close> here is a
  missing attribute.
\<close>

datatype data_attr = NoDataAttr | DataNone | Data "employee list"

record hr_analyzer =
  data :: data_attr
  gemini_client :: "pyval option"
  qdrant_client :: "pyval option"

text \<open>
  The methods of \<open>HRAnalyzer\<close> (module \<open>main\<close>, not part of app.py) are parameters of
  the model. \<open>load_data\<close> returns its result or exception together with the analyzer as
  the call left it.
\<close>

record hr_methods =
  load_data :: "hr_analyzer \<Rightarrow> (exn + bool) \<times> hr_analyzer"
  get_average_sentiment :: "hr_analyzer \<Rightarrow> exn + rat"
  get_quadrant_distribution :: "hr_analyzer \<Rightarrow> exn + (string \<times> nat) list"
  get_analytics_summary :: "hr_analyzer \<Rightarrow> exn + summary"
  analyze_with_ai :: "hr_analyzer \<Rightarrow> string \<Rightarrow> string \<Rightarrow> exn + pyval"

text \<open>
  \<open>st.session_state\<close>: \<open>analyzer\<close> is what \<open>.get("analyzer", None)\<close> returns;
  \<open>data_loaded\<close> is \<open>None\<close> while the key is not set.
\<close>

record session =
  analyzer :: "hr_analyzer option"
  data_loaded :: "bool option"

text \<open>What a render pass displays and calls, in order.\<close>

datatype event =
    Header string
  | Subheader string
  | Info string
  | Success string
  | Warning string
  | Error string
  | Markdown pyval
  | Write string
  | Metric string string "string option"
  | Columns "nat list"
  | InCol nat event
  | Sidebar event
  | Button string
  | TextArea string
  | Spinner string
  | PieChart "nat list" "string list"
  | BarChart "string list" "rat list" "string list" "string list"
  | Call string "string list"

type_synonym render = "event list \<times> session \<times> exn option"

text \<open>\<open>analyzer.data\<close> and the truth value of what it returns.\<close>

definition get_data :: "hr_analyzer \<Rightarrow> exn + employee list option" where
  "get_data an =
     (case data an of
        NoDataAttr \<Rightarrow> Inl (AttributeError ''HRAnalyzer'' ''data'')
      | DataNone \<Rightarrow> Inr None
      | Data emps \<Rightarrow> Inr (Some emps))"

definition data_truthy :: "employee list option \<Rightarrow> bool" where
  "data_truthy d = (case d of None \<Rightarrow> False | Some emps \<Rightarrow> emps \<noteq> [])"

definition hasattr_data :: "hr_analyzer \<Rightarrow> bool" where
  "hasattr_data an = (case get_data an of Inr _ \<Rightarrow> True | Inl _ \<Rightarrow> False)"

subsection \<open>Helper functions (lines 38-92)\<close>

definition get_employees_by_quadrant :: "hr_analyzer option \<Rightarrow> string \<Rightarrow> exn + employee list" where
  "get_employees_by_quadrant a quadrant_name =
     (case a of
        None \<Rightarrow> Inr []
      | Some an \<Rightarrow>
          if \<not> hasattr_data an then Inr []
          else
            (case get_data an of
               Inl e \<Rightarrow> Inl e
             | Inr None \<Rightarrow> Inr []
             | Inr (Some emps) \<Rightarrow>
                 if emps = [] then Inr []
                 else Inr [emp \<leftarrow> emps. quadrant emp = Some quadrant_name]))"

definition display_row :: "employee \<Rightarrow> event list" where
  "display_row emp =
     [Columns [1, 2, 1, 6],
      InCol 0 (Markdown (PStr (''**ID:** '' @
         (case emp_id emp of None \<Rightarrow> ''-'' | Some i \<Rightarrow> str_int i)))),
      InCol 1 (Markdown (PStr (''**Role:** '' @ dict_get (role emp) ''-''))),
      InCol 2 (Markdown (PStr (''**Sentiment:** '' @
         format_1f (dict_get (sentiment_score emp) 0) @ ''%''))),
      InCol 3 (Write (dict_get (content emp) ''-''))]"

definition display_employees :: "employee list \<Rightarrow> event list" where
  "display_employees employees =
     (if employees = [] then [Info ''No employees found in this category.'']
      else concat (map display_row employees))"

definition employee_line :: "employee \<Rightarrow> string" where
  "employee_line emp =
     NL @ ''- '' @ dict_get (employee_name emp) ''Unknown'' @ '' ('' @
     dict_get (role emp) ''-'' @ ''): '' @
     format_1f (dict_get (sentiment_score emp) 0) @ ''%, '' @
     dict_get (quadrant emp) ''-''"

definition context_header :: "summary \<Rightarrow> string" where
  "context_header sm =
     (let quadrant_info =
            join_str '', '' (map (\<lambda>(k, v). k @ '': '' @ str_nat v) (quadrant_distribution sm));
          role_info =
            join_str '', '' (map (\<lambda>(r, sent). r @ '': '' @ format_1f sent @ ''%'')
                                (sentiment_by_role sm))
      in NL @ ''    Total Employees: '' @ str_nat (total_employees sm) @
         NL @ ''    Average Sentiment: '' @ format_1f (average_sentiment sm) @ ''%'' @
         NL @ ''    Quadrant Distribution: '' @ quadrant_info @
         NL @ ''    Sentiment by Role: '' @ role_info @
         NL @
         NL @ ''    Example Employee Records:'' @
         NL @ ''    '')"

text \<open>
  \<open>build_context\<close>: the call of \<open>get_analytics_summary\<close> it makes, and the context or the
  exception. \<open>analyzer.data[:21]\<close> raises when the attribute is missing or \<open>None\<close>.
\<close>

definition build_context :: "hr_methods \<Rightarrow> hr_analyzer \<Rightarrow> event list \<times> (exn + string)" where
  "build_context m an =
     ([Call ''get_analytics_summary'' []],
      (case get_analytics_summary m an of
         Inl e \<Rightarrow> Inl e
       | Inr sm \<Rightarrow>
           (case get_data an of
              Inl e \<Rightarrow> Inl e
            | Inr None \<Rightarrow> Inl (TypeError ''NoneType'')
            | Inr (Some emps) \<Rightarrow>
                Inr (foldl (\<lambda>context emp. context @ employee_line emp)
                       (context_header sm) (take 21 emps)))))"

subsection \<open>Status panel (lines 95-113)\<close>

definition show_environment_status :: "session \<Rightarrow> render" where
  "show_environment_status s =
     (map Sidebar
        ([Subheader (U_wrench @ '' System Status'')] @
         (case analyzer s of
            Some an \<Rightarrow>
              [Success (U_check @ '' Environment configured'')] @
              (if py_truthy (dict_get (gemini_client an) PNone)
               then [Success (U_check @ '' Gemini AI connected'')] else []) @
              (if py_truthy (dict_get (qdrant_client an) PNone)
               then [Success (U_check @ '' Vector database connected'')]
               else [Info (U_info @ '' Vector database offline (optional)'')])
          | None \<Rightarrow> [Warning (U_info @ '' Analyzer not initialized'')])),
      s, None)"

subsection \<open>Data management view (lines 116-148)\<close>

text \<open>Lines 122-132: the three metrics, shown when records are loaded.\<close>

definition data_metrics :: "hr_methods \<Rightarrow> hr_analyzer \<Rightarrow> employee list \<Rightarrow> event list \<times> exn option" where
  "data_metrics m an emps =
     (case get_average_sentiment m an of
        Inl e \<Rightarrow> ([Call ''get_average_sentiment'' []], Some e)
      | Inr avg_sentiment \<Rightarrow>
          (let shown =
                 [Call ''get_average_sentiment'' [],
                  Columns [1, 1, 1],
                  InCol 0 (Metric (U_chart @ '' Records Loaded'') (str_nat (length emps)) None),
                  InCol 1 (Metric (U_smile @ '' Average Sentiment'')
                             (format_1f avg_sentiment @ ''%'') None),
                  Call ''get_quadrant_distribution'' []]
           in case get_quadrant_distribution m an of
                Inl e \<Rightarrow> (shown, Some e)
              | Inr quadrants \<Rightarrow>
                  (shown @
                   [InCol 2 (Metric (U_warning @ '' At Risk Employees'')
                               (str_nat (dict_get (map_of quadrants ''At Risk'') 0)) None)],
                   None)))"

text \<open>
  Lines 136-148: the body of the reload button. \<open>load_data\<close> works on the analyzer object
  held by the session, so the session holds the analyzer as the call left it.
\<close>

definition reload_action :: "hr_methods \<Rightarrow> session \<Rightarrow> render" where
  "reload_action m s =
     (case analyzer s of
        None \<Rightarrow> ([Error (U_cross @ '' Analyzer not initialized'')], s, None)
      | Some an \<Rightarrow>
          (case load_data m an of
             (Inr reloaded, an') \<Rightarrow>
               if reloaded then
                 ([Call ''load_data'' [],
                   Success (U_check @ '' Data reloaded successfully from MySQL!'')],
                  s\<lparr>analyzer := Some an', data_loaded := Some True\<rparr>,
                  Some RerunException)
               else
                 ([Call ''load_data'' [],
                   Warning (U_warning @ '' No data returned from MySQL or reload failed.'')],
                  s\<lparr>analyzer := Some an'\<rparr>, None)
           | (Inl e, an') \<Rightarrow>
               if is_Exception e then
                 ([Call ''load_data'' [],
                   Error (U_cross @ '' Failed to reload: '' @ exn_str e)],
                  s\<lparr>analyzer := Some an'\<rparr>, None)
               else ([Call ''load_data'' []], s\<lparr>analyzer := Some an'\<rparr>, Some e)))"

text \<open>\<open>reload_clicked\<close> is what \<open>st.button("Reload Data")\<close> returns in this pass.\<close>

definition data_management_section :: "hr_methods \<Rightarrow> session \<Rightarrow> bool \<Rightarrow> render" where
  "data_management_section m s reload_clicked =
     (let top = [Header (U_folder @ '' Data Management'')];
          metrics =
            (case analyzer s of
               None \<Rightarrow> ([], None)
             | Some an \<Rightarrow>
                 (case get_data an of
                    Inl e \<Rightarrow> ([], Some e)
                  | Inr None \<Rightarrow> ([], None)
                  | Inr (Some emps) \<Rightarrow>
                      if emps = [] then ([], None) else data_metrics m an emps))
      in case metrics of
           (shown, Some e) \<Rightarrow> (top @ shown, s, Some e)
         | (shown, None) \<Rightarrow>
             (let widgets =
                    top @ shown @
                    [Subheader (U_reload @ '' Refresh Data from MySQL''),
                     Button (U_reload @ '' Reload Data'')]
              in if reload_clicked then
                   (case reload_action m s of (evs, s', x) \<Rightarrow> (widgets @ evs, s', x))
                 else (widgets, s, None)))"

subsection \<open>Analytics dashboard (lines 151-203)\<close>

definition sentiment_label :: "rat \<Rightarrow> string" where
  "sentiment_label avg = (if 60 < avg then ''Healthy'' else ''Needs Attention'')"

definition bar_color :: "rat \<Rightarrow> string" where
  "bar_color s = (if 70 < s then ''#28a745'' else if 50 < s then ''#ffc107'' else ''#dc3545'')"

text \<open>Lines 158-203: what is rendered from the summary.\<close>

definition dashboard_body :: "summary \<Rightarrow> event list" where
  "dashboard_body sm =
     [Header (U_chart @ '' Analytics Dashboard''),
      Columns [1, 1, 1, 1],
      InCol 0 (Metric (U_people @ '' Total Employees'') (str_nat (total_employees sm)) None),
      InCol 1 (Metric (U_smile @ '' Average Sentiment'')
                 (format_1f (average_sentiment sm) @ ''%'')
                 (Some (sentiment_label (average_sentiment sm)))),
      InCol 2 (Metric (U_trophy @ '' Champions'')
                 (str_nat (dict_get (map_of (quadrant_distribution sm) ''Champion'') 0)) None),
      InCol 3 (Metric (U_warning @ '' At Risk'')
                 (str_nat (dict_get (map_of (quadrant_distribution sm) ''At Risk'') 0)) None),
      Columns [1, 1],
      InCol 0 (Subheader (U_pie @ '' Employee Quadrant Distribution''))] @
     (let quadrant_data = quadrant_distribution sm
      in if quadrant_data \<noteq> [] then
           [InCol 0 (PieChart (map snd quadrant_data) (map fst quadrant_data))]
         else []) @
     [InCol 1 (Subheader (U_chart @ '' Sentiment by Role''))] @
     (let role_data = sentiment_by_role sm
      in if role_data \<noteq> [] then
           (let roles = map fst role_data;
                sentiments = map snd role_data;
                colors = map bar_color sentiments
            in [InCol 1 (BarChart roles sentiments colors
                           (map (\<lambda>s. format_1f s @ ''%'') sentiments))])
         else [])"

definition analytics_dashboard :: "hr_methods \<Rightarrow> session \<Rightarrow> render" where
  "analytics_dashboard m s =
     (let placeholder =
            ([Info (U_chart @ '' Load data from MySQL to see analytics dashboard'')], s, None)
      in case analyzer s of
           None \<Rightarrow> placeholder
         | Some an \<Rightarrow>
             (case get_data an of
                Inl e \<Rightarrow> ([], s, Some e)
              | Inr d \<Rightarrow>
                  if \<not> data_truthy d then placeholder
                  else
                    (case get_analytics_summary m an of
                       Inl e \<Rightarrow> ([Call ''get_analytics_summary'' []], s, Some e)
                     | Inr sm \<Rightarrow>
                         (Call ''get_analytics_summary'' [] # dashboard_body sm, s, None))))"

subsection \<open>AI question interface (lines 206-295)\<close>

text \<open>
  The widget inputs of one render pass: what the four quick buttons return, the text of
  the question box, and what the Analyze button returns when it is rendered.
\<close>

record ai_inputs =
  show_champions :: bool
  show_at_risk :: bool
  show_engagement :: bool
  show_retention :: bool
  query :: string
  analyze_clicked :: bool

text \<open>
  Lines 234-247, 249-262 and 283-295 are one block with three spinner texts, titles and
  questions: call the AI operation, unwrap the response, render the text or a notice.
\<close>

definition ai_block ::
  "hr_methods \<Rightarrow> hr_analyzer \<Rightarrow> string \<Rightarrow> string \<Rightarrow> string \<Rightarrow> string \<Rightarrow> event list \<times> exn option" where
  "ai_block m an spinner title question context =
     (let started = [Spinner spinner, Call ''analyze_with_ai'' [question, context]];
          failed = (\<lambda>e. if is_Exception e then
                            (started @ [Subheader title,
                                        Error (U_cross @ '' AI analysis failed: '' @ exn_str e)],
                             None)
                          else (started, Some e))
      in case analyze_with_ai m an question context of
           Inl e \<Rightarrow> failed e
         | Inr response \<Rightarrow>
             (case extract_ai_text response of
                Inl e \<Rightarrow> failed e
              | Inr result \<Rightarrow>
                  (started @ [Subheader title] @
                   (if py_truthy result then [Markdown result]
                    else [Error (U_cross @ '' AI analysis returned no content.'')]),
                   None)))"

text \<open>Lines 224-232: a quadrant button.\<close>

definition quadrant_block :: "hr_analyzer \<Rightarrow> string \<Rightarrow> string \<Rightarrow> event list \<times> exn option" where
  "quadrant_block an title_prefix quad =
     (case get_employees_by_quadrant (Some an) quad of
        Inl e \<Rightarrow> ([], Some e)
      | Inr employees \<Rightarrow>
          (Subheader (title_prefix @ '' Employees ('' @ str_nat (length employees) @ '')'') #
           display_employees employees, None))"

definition quadrant_keywords :: "(string \<times> string) list" where
  "quadrant_keywords =
     [(''champion'', ''Champion''),
      (''at risk'', ''At Risk''),
      (''concerned'', ''Concerned but active''),
      (''isolated'', ''Potentially Isolated'')]"

text \<open>
  Lines 274-281: the loop over the keywords, left by \<open>break\<close> at the first match. The
  last component is \<open>quadrant_found\<close>.
\<close>

fun keyword_loop ::
  "(string \<Rightarrow> string) \<Rightarrow> hr_analyzer \<Rightarrow> (string \<times> string) list \<Rightarrow> string \<Rightarrow>
   (event list \<times> exn option) \<times> bool" where
  "keyword_loop lower an [] query_text = (([], None), False)"
| "keyword_loop lower an ((kw, quad) # rest) query_text =
     (if sublist (lower kw) (lower query_text) then
        (quadrant_block an (U_pin @ '' '' @ quad) quad, True)
      else keyword_loop lower an rest query_text)"

text \<open>Running one block after another; an exception ends the pass.\<close>

definition then_block :: "event list \<times> exn option \<Rightarrow> event list \<times> exn option \<Rightarrow> event list \<times> exn option" where
  "then_block r1 r2 =
     (case r1 of
        (evs, Some e) \<Rightarrow> (evs, Some e)
      | (evs, None) \<Rightarrow> (evs @ fst r2, snd r2))"

text \<open>Lines 264-295: the question box.\<close>

definition custom_query_section ::
  "(string \<Rightarrow> string) \<Rightarrow> hr_methods \<Rightarrow> hr_analyzer \<Rightarrow> string \<Rightarrow> ai_inputs \<Rightarrow>
   event list \<times> exn option" where
  "custom_query_section lower m an context inp =
     then_block
       ([Subheader (U_speech @ '' Ask Custom Questions''),
         TextArea ''Enter your question:''] @
        (if query inp \<noteq> [] then [Button (U_robot @ '' Analyze'')] else []), None)
       (if query inp \<noteq> [] \<and> analyze_clicked inp then
          (case keyword_loop lower an quadrant_keywords (query inp) of
             (r, quadrant_found) \<Rightarrow>
               then_block r
                 (if \<not> quadrant_found then
                    ai_block m an (U_robot @ '' Generating AI insights...'')
                      (U_target @ '' AI Analysis Results'') (query inp) context
                  else ([], None)))
        else ([], None))"

text \<open>Lines 216-262: the four quick buttons.\<close>

definition quick_buttons ::
  "hr_methods \<Rightarrow> hr_analyzer \<Rightarrow> string \<Rightarrow> ai_inputs \<Rightarrow> event list \<times> exn option" where
  "quick_buttons m an context inp =
     then_block
       ([Columns [1, 1, 1, 1],
         InCol 0 (Button (U_trophy @ '' Show Champions'')),
         InCol 1 (Button (U_warning @ '' Show At Risk'')),
         InCol 2 (Button (U_trend @ '' Engagement Summary'')),
         InCol 3 (Button (U_target @ '' Retention Insights''))], None)
    (then_block
       (if show_champions inp then quadrant_block an (U_trophy @ '' Champion'') ''Champion''
        else ([], None))
    (then_block
       (if show_at_risk inp then quadrant_block an (U_warning @ '' At Risk'') ''At Risk''
        else ([], None))
    (then_block
       (if show_engagement inp then
          ai_block m an (U_brain @ '' Analyzing engagement...'')
            (U_trend @ '' Engagement Analysis'')
            ''What is the overall employee engagement status and key factors affecting it?''
            context
        else ([], None))
       (if show_retention inp then
          ai_block m an (U_brain @ '' Analyzing retention factors...'')
            (U_target @ '' Retention Analysis'')
            ''What factors might affect employee retention and what are your recommendations?''
            context
        else ([], None)))))"

definition ai_analysis_interface ::
  "(string \<Rightarrow> string) \<Rightarrow> hr_methods \<Rightarrow> session \<Rightarrow> ai_inputs \<Rightarrow> render" where
  "ai_analysis_interface lower m s inp =
     (let placeholder =
            ([Info (U_robot @ '' Load data from MySQL to enable AI analysis'')], s, None)
      in case analyzer s of
           None \<Rightarrow> placeholder
         | Some an \<Rightarrow>
             (case get_data an of
                Inl e \<Rightarrow> ([], s, Some e)
              | Inr d \<Rightarrow>
                  if \<not> data_truthy d then placeholder
                  else
                    (case build_context m an of
                       (calls, Inl e) \<Rightarrow>
                         (Header (U_robot @ '' AI-Powered Analysis'') # calls, s, Some e)
                     | (calls, Inr context) \<Rightarrow>
                         (case then_block
                                 (Header (U_robot @ '' AI-Powered Analysis'') # calls, None)
                                 (then_block (quick_buttons m an context inp)
                                    (custom_query_section lower m an context inp)) of
                            (evs, x) \<Rightarrow> (evs, s, x)))))"

subsection \<open>The quadrant distribution\<close>

text \<open>
  Modelled from the spec: the \<open>quadrant_distribution\<close> computed by \<open>HRAnalyzer\<close> (module
  \<open>main\<close>, not part of app.py), a mapping from quadrant to the count of the currently
  loaded records in that quadrant.
\<close>

definition quadrant_count :: "employee list \<Rightarrow> string \<Rightarrow> nat" where
  "quadrant_count emps q = length (filter (\<lambda>emp. quadrant emp = Some q) emps)"

subsection \<open>Loading the records\<close>

text \<open>
  Modelled from the spec: \<open>load_data\<close> of \<open>HRAnalyzer\<close> (module \<open>main\<close>, not part of
  app.py). It returns whether the load succeeded and replaces the in-memory record set
  only on success; a failed load, an empty result and an exception leave the records
  loaded before as they are. What the store does is the parameter: it delivers rows, it
  refuses, or the call raises.
\<close>

datatype load_outcome = Fetched "employee list" | Refused | Threw exn

fun load_data_spec :: "load_outcome \<Rightarrow> hr_analyzer \<Rightarrow> (exn + bool) \<times> hr_analyzer" where
  "load_data_spec (Fetched rows) an =
     (if rows = [] then (Inr False, an) else (Inr True, an\<lparr>data := Data rows\<rparr>))"
| "load_data_spec Refused an = (Inr False, an)"
| "load_data_spec (Threw e) an = (Inl e, an)"

subsection \<open>Reading a trace\<close>




subsection \<open>Example data\<close>

text \<open>
  Two records, Ann (a Champion) and Bob (At Risk), a summary of three employees with an
  average sentiment of 55.0, and collaborators that answer with them.
\<close>

definition ex_ann :: employee where
  "ex_ann = \<lparr>emp_id = Some 1, employee_name = Some ''Ann'', role = Some ''Engineer'',
     sentiment_score = Some 72, quadrant = Some ''Champion'',
     content = Some ''Great team''\<rparr>"

definition ex_bob :: employee where
  "ex_bob = \<lparr>emp_id = Some 2, employee_name = Some ''Bob'', role = Some ''Analyst'',
     sentiment_score = Some 21, quadrant = Some ''At Risk'',
     content = Some ''Too much overtime''\<rparr>"

definition ex_emps :: "employee list" where
  "ex_emps = [ex_ann, ex_bob]"

definition ex_summary :: summary where
  "ex_summary = \<lparr>total_employees = 3, average_sentiment = 55,
     quadrant_distribution = [(''Champion'', 2), (''At Risk'', 1)],
     sentiment_by_role = [(''Engineer'', 72), (''Analyst'', 21)]\<rparr>"

definition ex_analyzer :: hr_analyzer where
  "ex_analyzer = \<lparr>data = Data ex_emps, gemini_client = Some (PObj ''Client'' []),
     qdrant_client = None\<rparr>"

text \<open>\<open>load_data\<close> returns or raises \<open>outcome\<close> and leaves the analyzer as it is.\<close>

definition ex_methods :: "exn + bool \<Rightarrow> hr_methods" where
  "ex_methods outcome =
     \<lparr>load_data = (\<lambda>an. (outcome, an)),
      get_average_sentiment = (\<lambda>an. Inr 55),
      get_quadrant_distribution = (\<lambda>an. Inr [(''Champion'', 2), (''At Risk'', 1)]),
      get_analytics_summary = (\<lambda>an. Inr ex_summary),
      analyze_with_ai = (\<lambda>an question context. Inr (PStr ''Morale is mixed.''))\<rparr>"

definition ex_session :: session where
  "ex_session = \<lparr>analyzer = Some ex_analyzer, data_loaded = Some False\<rparr>"

definition ex_inputs :: "string \<Rightarrow> ai_inputs" where
  "ex_inputs q =
     \<lparr>show_champions = False, show_at_risk = False, show_engagement = False,
      show_retention = False, query = q, analyze_clicked = True\<rparr>"

definition ex_nested :: pyval where
  "ex_nested =
     PObj ''Response''
       [(''candidates'',
         PList [PObj ''Candidate''
           [(''content'',
             PObj ''Content''
               [(''parts'', PList [PObj ''Part'' [(''text'', PStr ''hello'')]])])]])]"

definition ex_faulty :: pyval where
  "ex_faulty = PObj ''Response'' [(''candidates'', PList [PNone]), (''text'', PStr ''hi'')]"

text \<open>
  Responses with a direct text and a nested chain that stops early: the parts are empty;
  the first part has no text; the content has no parts.
\<close>

definition ex_chain :: "pyval \<Rightarrow> pyval" where
  "ex_chain cont =
     PObj ''Response''
       [(''candidates'', PList [PObj ''Candidate'' [(''content'', cont)]]),
        (''text'', PStr ''hi'')]"

definition ex_empty_parts :: pyval where
  "ex_empty_parts = ex_chain (PObj ''Content'' [(''parts'', PList [])])"

definition ex_part_without_text :: pyval where
  "ex_part_without_text = ex_chain (PObj ''Content'' [(''parts'', PList [PObj ''Part'' []])])"

section \<open>Properties\<close>

subsection \<open>Auxiliary facts\<close>

lemma getattr_exn: "py_getattr v a = Inl e \<Longrightarrow> is_Exception e"
  by (cases v) (auto split: option.splits)

lemma item0_exn: "py_item0 v = Inl e \<Longrightarrow> is_Exception e"
  by (cases v) (auto split: list.splits)

lemma probe_exn: "probe_candidates r = Inl e \<Longrightarrow> is_Exception e"
  unfolding probe_candidates_def
  by (auto split: if_splits sum.splits dest: getattr_exn item0_exn)

lemma try_exn: "extract_try r = Inl e \<Longrightarrow> is_Exception e"
  unfolding extract_try_def
  by (auto split: if_splits sum.splits option.splits dest: getattr_exn probe_exn)

lemma getattr_attr_of:
  "py_getattr v a =
     (case attr_of v a of Some x \<Rightarrow> Inr x | None \<Rightarrow> Inl (AttributeError (py_type_name v) a))"
  by (cases v) (auto split: option.splits)

lemma hasattr_attr_of: "py_hasattr v a = (attr_of v a \<noteq> None)"
  by (simp add: py_hasattr_def getattr_attr_of split: option.splits)

lemma first_of_item0: "first_of v = Some x \<Longrightarrow> py_item0 v = Inr x \<and> py_truthy v"
  by (cases v rule: first_of.cases) auto

lemma attr_of_obj: "attr_of v a = Some x \<Longrightarrow> py_truthy v \<and> \<not> isinstance_str v"
  by (cases v) auto

lemma probe_leaf: "nested_leaf r = Some t \<Longrightarrow> probe_candidates r = Inr (Some t)"
  unfolding nested_leaf_def probe_candidates_def
  by (auto simp: hasattr_attr_of getattr_attr_of bind_eq_Some_conv dest!: first_of_item0)

lemma probe_obj: "probe_candidates r = Inl e \<Longrightarrow> py_truthy r \<and> \<not> isinstance_str r"
  unfolding probe_candidates_def
  by (auto simp: hasattr_attr_of split: if_splits dest: attr_of_obj)

lemma no_first_item0:
  "first_of v = None \<Longrightarrow> py_truthy v \<Longrightarrow> py_item0 v = Inl (TypeError (py_type_name v))"
  by (cases v rule: first_of.cases) auto

lemma fall_through:
  "py_truthy r \<and> \<not> isinstance_str r \<Longrightarrow> probe_candidates r = Inr None \<Longrightarrow>
   extract_ai_text r = Inr (direct_or_none r)"
  by (simp add: extract_ai_text_def extract_try_def direct_or_none_def hasattr_attr_of
        getattr_attr_of split: option.splits)

lemma raised:
  "py_truthy r \<and> \<not> isinstance_str r \<Longrightarrow> probe_candidates r = Inl e \<Longrightarrow>
   extract_ai_text r = Inr (PStr (U_warning @ '' Extraction failed: '' @ exn_str e))"
  by (auto simp: extract_ai_text_def extract_try_def dest: probe_exn)

lemma get_employees_filter:
  "data an = Data emps \<Longrightarrow>
   get_employees_by_quadrant (Some an) q = Inr (filter (\<lambda>emp. quadrant emp = Some q) emps)"
  by (simp add: get_employees_by_quadrant_def hasattr_data_def get_data_def)

lemma display_no_info: "Info msg \<notin> set (concat (map display_row emps))"
  by (induction emps) (auto simp: display_row_def)

lemma foldl_append_lines:
  "foldl (\<lambda>context emp. context @ f emp) h emps = h @ concat (map f emps)"
  by (induction emps arbitrary: h) auto

lemma build_context_eq:
  "get_analytics_summary m an = Inr sm \<Longrightarrow> data an = Data emps \<Longrightarrow>
   build_context m an =
     ([Call ''get_analytics_summary'' []],
      Inr (context_header sm @ concat (map employee_line (take 21 emps))))"
  by (simp add: build_context_def get_data_def foldl_append_lines)

lemma sublist_concat_nth:
  assumes "i < length xs"
  shows "sublist (f (xs ! i)) (h @ concat (map f xs))"
proof -
  from assms have "xs = take i xs @ xs ! i # drop (Suc i) xs"
    by (simp add: id_take_nth_drop)
  then have "h @ concat (map f xs) =
     (h @ concat (map f (take i xs))) @ f (xs ! i) @ concat (map f (drop (Suc i) xs))"
    by (metis append.assoc concat.simps(2) concat_append list.simps(9) map_append)
  then show ?thesis by (metis sublist_appendI)
qed

lemma sublist_in_prefix: "sublist x h \<Longrightarrow> sublist x (h @ t)"
  by (metis sublist_append)

lemma header_parts:
  "\<exists>a b c d e. context_header sm =
      a @ (''Total Employees: '' @ str_nat (total_employees sm) @ NL) @
      b @ (''Average Sentiment: '' @ format_1f (average_sentiment sm) @ ''%'' @ NL) @
      c @ (''Quadrant Distribution: '' @
            join_str '', '' (map (\<lambda>(k, v). k @ '': '' @ str_nat v) (quadrant_distribution sm)) @ NL) @
      d @ (''Sentiment by Role: '' @
            join_str '', '' (map (\<lambda>(r, sent). r @ '': '' @ format_1f sent @ ''%'')
                               (sentiment_by_role sm)) @ NL) @ e"
  apply (rule exI [of _ "NL @ ''    ''"])
  apply (rule exI [of _ "''    ''"])
  apply (rule exI [of _ "''    ''"])
  apply (rule exI [of _ "''    ''"])
  apply (rule exI [of _ "NL @ ''    Example Employee Records:'' @ NL @ ''    ''"])
  apply (simp add: context_header_def Let_def)
  done



lemma data_metrics_load_data:
  "data_metrics (m\<lparr>load_data := f\<rparr>) an emps = data_metrics m an emps"
  by (simp add: data_metrics_def Let_def split: sum.splits)






lemma bar_color_cases:
  "(bar_color v = ''#28a745'' \<longleftrightarrow> 70 < v)
   \<and> (bar_color v = ''#ffc107'' \<longleftrightarrow> 50 < v \<and> v \<le> 70)
   \<and> (bar_color v = ''#dc3545'' \<longleftrightarrow> v \<le> 50)"
  by (auto simp: bar_color_def)

lemma ex_strings:
  "str_nat 0 = ''0''" "str_nat 1 = ''1''" "str_nat (Suc 0) = ''1''"
  "str_nat 2 = ''2''" "str_nat 3 = ''3''"
  "format_1f 55 = ''55.0''" "format_1f 72 = ''72.0''" "format_1f 21 = ''21.0''"
  "str_int 1 = ''1''"
  by code_simp+

lemma ex_metrics:
  "\<exists>shown. data_metrics (ex_methods outcome) ex_analyzer ex_emps = (shown, None)"
  by (simp add: data_metrics_def ex_methods_def Let_def)

subsection \<open>Keyword routing of a free-text question\<close>



subsection \<open>Unwrapping a response\<close>

text \<open>
  Claim C2, as stated: plain text is returned unchanged; else the leaf text of the nested
  chain; else the direct text attribute; else the "no content" value. It fails at the
  empty text, which line 60 turns into \<open>None\<close>, and at a response whose first candidate
  has no content while a direct text attribute is there: the probe of the nested chain
  raises and the failure message is returned instead of the direct text.
\<close>

theorem extract_ai_text_plain_text_counterexample:
  "extract_ai_text (PStr []) = Inr PNone
   \<and> extract_ai_text (PStr []) \<noteq> Inr (PStr [])
   \<and> nested_leaf ex_faulty = None
   \<and> attr_of ex_faulty ''text'' = Some (PStr ''hi'')
   \<and> extract_ai_text ex_faulty \<noteq> Inr (PStr ''hi'')
   \<and> extract_ai_text ex_faulty =
        Inr (PStr (U_warning @ '' Extraction failed: '' @
                   [CHR 0x27] @ ''NoneType'' @ [CHR 0x27] @ '' object has no attribute '' @
                   [CHR 0x27] @ ''content'' @ [CHR 0x27]))"
  by (simp add: extract_ai_text_def extract_try_def probe_candidates_def py_hasattr_def
        nested_leaf_def ex_faulty_def)

text \<open>
  Claim C2, amended. A non-empty text is returned unchanged; the empty text, like every
  other false value, gives \<open>None\<close>, the "no content" value. A response that has the whole
  chain candidates, first candidate, content, parts, first part, text gives that leaf.
  Otherwise the direct \<open>text\<close> attribute is returned if there is one and \<open>None\<close> if not,
  whenever following the chain raises nothing: there is no \<open>candidates\<close> attribute, or its
  value is empty, or the chain reaches the parts and they are empty, or the first part
  has no text. When following the chain raises (the candidates cannot be indexed, the
  first candidate has no content, the content has no parts, or the parts cannot be
  indexed), the extraction-failure message with the text of that exception is returned.
\<close>

theorem extract_ai_text_shapes:
  "(s \<noteq> [] \<longrightarrow> extract_ai_text (PStr s) = Inr (PStr s))
   \<and> (\<not> py_truthy r \<longrightarrow> extract_ai_text r = Inr PNone)
   \<and> (nested_leaf r = Some t \<longrightarrow> extract_ai_text r = Inr t)
   \<and> (py_truthy r \<and> \<not> isinstance_str r \<and> attr_of r ''candidates'' = None \<longrightarrow>
        extract_ai_text r = Inr (direct_or_none r))
   \<and> (attr_of r ''candidates'' = Some cs \<and> \<not> py_truthy cs \<longrightarrow>
        extract_ai_text r = Inr (direct_or_none r))
   \<and> (attr_of r ''candidates'' = Some cs \<and> first_of cs = Some c0 \<and>
       attr_of c0 ''content'' = Some ct \<and> attr_of ct ''parts'' = Some ps \<and> \<not> py_truthy ps \<longrightarrow>
        extract_ai_text r = Inr (direct_or_none r))
   \<and> (attr_of r ''candidates'' = Some cs \<and> first_of cs = Some c0 \<and>
       attr_of c0 ''content'' = Some ct \<and> attr_of ct ''parts'' = Some ps \<and>
       first_of ps = Some p0 \<and> attr_of p0 ''text'' = None \<longrightarrow>
        extract_ai_text r = Inr (direct_or_none r))
   \<and> (attr_of r ''candidates'' = Some cs \<and> py_truthy cs \<and> first_of cs = None \<longrightarrow>
        extract_ai_text r =
          Inr (PStr (U_warning @ '' Extraction failed: '' @
                     exn_str (TypeError (py_type_name cs)))))
   \<and> (attr_of r ''candidates'' = Some cs \<and> first_of cs = Some c0 \<and>
       attr_of c0 ''content'' = None \<longrightarrow>
        extract_ai_text r =
          Inr (PStr (U_warning @ '' Extraction failed: '' @
                     exn_str (AttributeError (py_type_name c0) ''content''))))
   \<and> (attr_of r ''candidates'' = Some cs \<and> first_of cs = Some c0 \<and>
       attr_of c0 ''content'' = Some ct \<and> attr_of ct ''parts'' = None \<longrightarrow>
        extract_ai_text r =
          Inr (PStr (U_warning @ '' Extraction failed: '' @
                     exn_str (AttributeError (py_type_name ct) ''parts''))))
   \<and> (attr_of r ''candidates'' = Some cs \<and> first_of cs = Some c0 \<and>
       attr_of c0 ''content'' = Some ct \<and> attr_of ct ''parts'' = Some ps \<and>
       py_truthy ps \<and> first_of ps = None \<longrightarrow>
        extract_ai_text r =
          Inr (PStr (U_warning @ '' Extraction failed: '' @
                     exn_str (TypeError (py_type_name ps)))))"
proof (intro conjI impI)
  show "extract_ai_text (PStr s) = Inr (PStr s)" if "s \<noteq> []"
    using that by (simp add: extract_ai_text_def extract_try_def)
  show "extract_ai_text r = Inr PNone" if "\<not> py_truthy r"
    using that by (simp add: extract_ai_text_def extract_try_def)
  show "extract_ai_text r = Inr t" if "nested_leaf r = Some t"
  proof -
    from that have p: "probe_candidates r = Inr (Some t)" by (rule probe_leaf)
    from that obtain cs where "attr_of r ''candidates'' = Some cs"
      by (auto simp: nested_leaf_def bind_eq_Some_conv)
    then have "py_truthy r" "\<not> isinstance_str r" by (auto dest: attr_of_obj)
    with p show ?thesis by (simp add: extract_ai_text_def extract_try_def)
  qed
  show "extract_ai_text r = Inr (direct_or_none r)"
    if "py_truthy r \<and> \<not> isinstance_str r \<and> attr_of r ''candidates'' = None"
    using that by (simp add: fall_through probe_candidates_def hasattr_attr_of)
  show "extract_ai_text r = Inr (direct_or_none r)"
    if h: "attr_of r ''candidates'' = Some cs \<and> \<not> py_truthy cs"
  proof -
    from h have "py_truthy r \<and> \<not> isinstance_str r" by (auto dest: attr_of_obj)
    moreover from h have "probe_candidates r = Inr None"
      by (simp add: probe_candidates_def hasattr_attr_of getattr_attr_of)
    ultimately show ?thesis by (simp add: fall_through)
  qed
  show "extract_ai_text r = Inr (direct_or_none r)"
    if h: "attr_of r ''candidates'' = Some cs \<and> first_of cs = Some c0 \<and>
       attr_of c0 ''content'' = Some ct \<and> attr_of ct ''parts'' = Some ps \<and> \<not> py_truthy ps"
  proof -
    from h have "py_truthy r \<and> \<not> isinstance_str r" by (auto dest: attr_of_obj)
    moreover from h have "probe_candidates r = Inr None"
      by (auto simp: probe_candidates_def hasattr_attr_of getattr_attr_of
               dest!: first_of_item0)
    ultimately show ?thesis by (simp add: fall_through)
  qed
  show "extract_ai_text r = Inr (direct_or_none r)"
    if h: "attr_of r ''candidates'' = Some cs \<and> first_of cs = Some c0 \<and>
       attr_of c0 ''content'' = Some ct \<and> attr_of ct ''parts'' = Some ps \<and>
       first_of ps = Some p0 \<and> attr_of p0 ''text'' = None"
  proof -
    from h have "py_truthy r \<and> \<not> isinstance_str r" by (auto dest: attr_of_obj)
    moreover from h have "probe_candidates r = Inr None"
      by (auto simp: probe_candidates_def hasattr_attr_of getattr_attr_of
               dest!: first_of_item0)
    ultimately show ?thesis by (simp add: fall_through)
  qed
  show "extract_ai_text r =
          Inr (PStr (U_warning @ '' Extraction failed: '' @
                     exn_str (TypeError (py_type_name cs))))"
    if h: "attr_of r ''candidates'' = Some cs \<and> py_truthy cs \<and> first_of cs = None"
  proof -
    from h have "py_truthy r \<and> \<not> isinstance_str r" by (auto dest: attr_of_obj)
    moreover from h have "probe_candidates r = Inl (TypeError (py_type_name cs))"
      by (auto simp: probe_candidates_def hasattr_attr_of getattr_attr_of
               dest: no_first_item0)
    ultimately show ?thesis by (simp add: raised)
  qed
  show "extract_ai_text r =
          Inr (PStr (U_warning @ '' Extraction failed: '' @
                     exn_str (AttributeError (py_type_name c0) ''content'')))"
    if h: "attr_of r ''candidates'' = Some cs \<and> first_of cs = Some c0 \<and>
       attr_of c0 ''content'' = None"
  proof -
    from h have "py_truthy r \<and> \<not> isinstance_str r" by (auto dest: attr_of_obj)
    moreover from h
    have "probe_candidates r = Inl (AttributeError (py_type_name c0) ''content'')"
      by (auto simp: probe_candidates_def hasattr_attr_of getattr_attr_of
               dest!: first_of_item0)
    ultimately show ?thesis by (simp add: raised)
  qed
  show "extract_ai_text r =
          Inr (PStr (U_warning @ '' Extraction failed: '' @
                     exn_str (AttributeError (py_type_name ct) ''parts'')))"
    if h: "attr_of r ''candidates'' = Some cs \<and> first_of cs = Some c0 \<and>
       attr_of c0 ''content'' = Some ct \<and> attr_of ct ''parts'' = None"
  proof -
    from h have "py_truthy r \<and> \<not> isinstance_str r" by (auto dest: attr_of_obj)
    moreover from h
    have "probe_candidates r = Inl (AttributeError (py_type_name ct) ''parts'')"
      by (auto simp: probe_candidates_def hasattr_attr_of getattr_attr_of
               dest!: first_of_item0)
    ultimately show ?thesis by (simp add: raised)
  qed
  show "extract_ai_text r =
          Inr (PStr (U_warning @ '' Extraction failed: '' @
                     exn_str (TypeError (py_type_name ps))))"
    if h: "attr_of r ''candidates'' = Some cs \<and> first_of cs = Some c0 \<and>
       attr_of c0 ''content'' = Some ct \<and> attr_of ct ''parts'' = Some ps \<and>
       py_truthy ps \<and> first_of ps = None"
  proof -
    from h have "py_truthy r \<and> \<not> isinstance_str r" by (auto dest: attr_of_obj)
    moreover from h have "probe_candidates r = Inl (TypeError (py_type_name ps))"
      by (auto simp: probe_candidates_def hasattr_attr_of getattr_attr_of
               dest!: first_of_item0 dest: no_first_item0)
    ultimately show ?thesis by (simp add: raised)
  qed
qed

text \<open>
  One response for each case: a text; the empty text; the whole chain; a direct text
  alone; empty candidates; empty parts; a first part without text; candidates that are a
  number; a first candidate that is \<open>None\<close>; a content that is \<open>None\<close>; parts that are a
  number.
\<close>

theorem extract_ai_text_shapes_witness:
  "extract_ai_text (PStr ''hello'') = Inr (PStr ''hello'')
   \<and> extract_ai_text (PStr []) = Inr PNone
   \<and> nested_leaf ex_nested = Some (PStr ''hello'')
   \<and> extract_ai_text ex_nested = Inr (PStr ''hello'')
   \<and> extract_ai_text (PObj ''Reply'' [(''text'', PStr ''hi'')]) = Inr (PStr ''hi'')
   \<and> extract_ai_text (PObj ''Reply'' []) = Inr PNone
   \<and> extract_ai_text (PObj ''Reply'' [(''candidates'', PList []), (''text'', PStr ''hi'')])
        = Inr (PStr ''hi'')
   \<and> extract_ai_text ex_empty_parts = Inr (PStr ''hi'')
   \<and> extract_ai_text ex_part_without_text = Inr (PStr ''hi'')
   \<and> extract_ai_text (PObj ''Reply'' [(''candidates'', PInt 3), (''text'', PStr ''hi'')])
        = Inr (PStr (U_warning @ '' Extraction failed: '' @ exn_str (TypeError ''int'')))
   \<and> extract_ai_text ex_faulty
        = Inr (PStr (U_warning @ '' Extraction failed: '' @
                     exn_str (AttributeError ''NoneType'' ''content'')))
   \<and> extract_ai_text (ex_chain PNone)
        = Inr (PStr (U_warning @ '' Extraction failed: '' @
                     exn_str (AttributeError ''NoneType'' ''parts'')))
   \<and> extract_ai_text (ex_chain (PObj ''Content'' [(''parts'', PInt 5)]))
        = Inr (PStr (U_warning @ '' Extraction failed: '' @ exn_str (TypeError ''int'')))"
proof -
  note t = extract_ai_text_shapes
  have c1: "extract_ai_text (PStr ''hello'') = Inr (PStr ''hello'')"
    using t [where s = "''hello''"] by simp
  have c2: "extract_ai_text (PStr []) = Inr PNone"
    using t [where r = "PStr []"] by simp
  have leaf: "nested_leaf ex_nested = Some (PStr ''hello'')"
    by (simp add: nested_leaf_def ex_nested_def)
  have c3: "extract_ai_text ex_nested = Inr (PStr ''hello'')"
    using t [where r = ex_nested and t = "PStr ''hello''"] leaf by simp
  have c4: "extract_ai_text (PObj ''Reply'' [(''text'', PStr ''hi'')]) = Inr (PStr ''hi'')"
    using t [where r = "PObj ''Reply'' [(''text'', PStr ''hi'')]"]
    by (simp add: direct_or_none_def)
  have c5: "extract_ai_text (PObj ''Reply'' []) = Inr PNone"
    using t [where r = "PObj ''Reply'' []"] by (simp add: direct_or_none_def)
  have c6: "extract_ai_text (PObj ''Reply'' [(''candidates'', PList []), (''text'', PStr ''hi'')])
        = Inr (PStr ''hi'')"
    using t [where r = "PObj ''Reply'' [(''candidates'', PList []), (''text'', PStr ''hi'')]"
               and cs = "PList []"]
    by (simp add: direct_or_none_def)
  have c7: "extract_ai_text ex_empty_parts = Inr (PStr ''hi'')"
    using t [where r = ex_empty_parts
               and cs = "PList [PObj ''Candidate''
                                  [(''content'', PObj ''Content'' [(''parts'', PList [])])]]"
               and ?c0.0 = "PObj ''Candidate''
                              [(''content'', PObj ''Content'' [(''parts'', PList [])])]"
               and ct = "PObj ''Content'' [(''parts'', PList [])]"
               and ps = "PList []"]
    by (simp add: direct_or_none_def ex_empty_parts_def ex_chain_def)
  have c8: "extract_ai_text ex_part_without_text = Inr (PStr ''hi'')"
    using t [where r = ex_part_without_text
               and cs = "PList [PObj ''Candidate''
                          [(''content'', PObj ''Content'' [(''parts'', PList [PObj ''Part'' []])])]]"
               and ?c0.0 = "PObj ''Candidate''
                          [(''content'', PObj ''Content'' [(''parts'', PList [PObj ''Part'' []])])]"
               and ct = "PObj ''Content'' [(''parts'', PList [PObj ''Part'' []])]"
               and ps = "PList [PObj ''Part'' []]"
               and ?p0.0 = "PObj ''Part'' []"]
    by (simp add: direct_or_none_def ex_part_without_text_def ex_chain_def)
  have c9: "extract_ai_text (PObj ''Reply'' [(''candidates'', PInt 3), (''text'', PStr ''hi'')])
        = Inr (PStr (U_warning @ '' Extraction failed: '' @ exn_str (TypeError ''int'')))"
    using t [where r = "PObj ''Reply'' [(''candidates'', PInt 3), (''text'', PStr ''hi'')]"
               and cs = "PInt 3"]
    by simp
  have c10: "extract_ai_text ex_faulty
        = Inr (PStr (U_warning @ '' Extraction failed: '' @
                     exn_str (AttributeError ''NoneType'' ''content'')))"
    using t [where r = ex_faulty and cs = "PList [PNone]" and ?c0.0 = PNone]
    by (simp add: ex_faulty_def)
  have c11: "extract_ai_text (ex_chain PNone)
        = Inr (PStr (U_warning @ '' Extraction failed: '' @
                     exn_str (AttributeError ''NoneType'' ''parts'')))"
    using t [where r = "ex_chain PNone"
               and cs = "PList [PObj ''Candidate'' [(''content'', PNone)]]"
               and ?c0.0 = "PObj ''Candidate'' [(''content'', PNone)]"
               and ct = PNone]
    by (simp add: ex_chain_def)
  have c12: "extract_ai_text (ex_chain (PObj ''Content'' [(''parts'', PInt 5)]))
        = Inr (PStr (U_warning @ '' Extraction failed: '' @ exn_str (TypeError ''int'')))"
    using t [where r = "ex_chain (PObj ''Content'' [(''parts'', PInt 5)])"
               and cs = "PList [PObj ''Candidate''
                                  [(''content'', PObj ''Content'' [(''parts'', PInt 5)])]]"
               and ?c0.0 = "PObj ''Candidate''
                              [(''content'', PObj ''Content'' [(''parts'', PInt 5)])]"
               and ct = "PObj ''Content'' [(''parts'', PInt 5)]"
               and ps = "PInt 5"]
    by (simp add: ex_chain_def)
  show ?thesis
    by (intro conjI c1 c2 leaf c3 c4 c5 c6 c7 c8 c9 c10 c11 c12)
qed

text \<open>
  Claim C8. For every response, \<open>extract_ai_text\<close> returns a value and raises nothing;
  when a step of the probing raises, the value is the extraction-failure message with the
  text of that exception.
\<close>

theorem extract_ai_text_never_raises:
  "(\<exists>v. extract_ai_text r = Inr v)
   \<and> (extract_try r = Inl e \<longrightarrow>
        extract_ai_text r = Inr (PStr (U_warning @ '' Extraction failed: '' @ exn_str e)))"
  by (auto simp: extract_ai_text_def split: sum.splits dest: try_exn)

theorem extract_ai_text_never_raises_witness:
  "extract_try ex_faulty = Inl (AttributeError ''NoneType'' ''content'')
   \<and> extract_ai_text ex_faulty =
        Inr (PStr (U_warning @ '' Extraction failed: '' @
                   exn_str (AttributeError ''NoneType'' ''content'')))"
proof -
  have fault: "extract_try ex_faulty = Inl (AttributeError ''NoneType'' ''content'')"
    by (simp add: extract_try_def probe_candidates_def py_hasattr_def ex_faulty_def)
  show ?thesis
    using extract_ai_text_never_raises [of ex_faulty "AttributeError ''NoneType'' ''content''"] fault
    by simp
qed

subsection \<open>The context string\<close>

text \<open>
  Claim C3. When the summary is available and the records are loaded, the context built
  by \<open>build_context\<close> is a function of the summary and the records alone: the header made
  from the summary followed by one line for each of the first min(21, length) records, in
  load order. It contains the total number of employees and the average sentiment (with
  one decimal) of the summary, the quadrant distribution and the sentiments by role, and
  the line of each of those records; the line of a record reads
  \<open>name (role): score%, quadrant\<close>.
\<close>

theorem build_context_content:
  assumes "get_analytics_summary m an = Inr sm" and "data an = Data emps"
  shows "let context = context_header sm @ concat (map employee_line (take 21 emps))
    in build_context m an = ([Call ''get_analytics_summary'' []], Inr context)
     \<and> length (take 21 emps) = min 21 (length emps)
     \<and> sublist (''Total Employees: '' @ str_nat (total_employees sm) @ NL) context
     \<and> sublist (''Average Sentiment: '' @ format_1f (average_sentiment sm) @ ''%'' @ NL) context
     \<and> sublist (''Quadrant Distribution: '' @
          join_str '', '' (map (\<lambda>(k, v). k @ '': '' @ str_nat v) (quadrant_distribution sm)) @ NL)
          context
     \<and> sublist (''Sentiment by Role: '' @
          join_str '', '' (map (\<lambda>(r, sent). r @ '': '' @ format_1f sent @ ''%'')
                             (sentiment_by_role sm)) @ NL)
          context
     \<and> (\<forall>i < min 21 (length emps). sublist (employee_line (emps ! i)) context)
     \<and> (\<forall>emp name r score q.
          employee_name emp = Some name \<and> role emp = Some r \<and>
          sentiment_score emp = Some score \<and> quadrant emp = Some q \<longrightarrow>
          employee_line emp =
            NL @ ''- '' @ name @ '' ('' @ r @ ''): '' @ format_1f score @ ''%, '' @ q)"
proof -
  obtain a b c d e where h: "context_header sm =
      a @ (''Total Employees: '' @ str_nat (total_employees sm) @ NL) @
      b @ (''Average Sentiment: '' @ format_1f (average_sentiment sm) @ ''%'' @ NL) @
      c @ (''Quadrant Distribution: '' @
            join_str '', '' (map (\<lambda>(k, v). k @ '': '' @ str_nat v) (quadrant_distribution sm)) @ NL) @
      d @ (''Sentiment by Role: '' @
            join_str '', '' (map (\<lambda>(r, sent). r @ '': '' @ format_1f sent @ ''%'')
                               (sentiment_by_role sm)) @ NL) @ e"
    using header_parts by blast
  have s1: "sublist (''Total Employees: '' @ str_nat (total_employees sm) @ NL) (context_header sm)"
    by (subst h) (rule sublist_appendI)
  have s2: "sublist (''Average Sentiment: '' @ format_1f (average_sentiment sm) @ ''%'' @ NL)
              (context_header sm)"
    by (subst h) (metis append.assoc sublist_appendI)
  have s3: "sublist (''Quadrant Distribution: '' @
          join_str '', '' (map (\<lambda>(k, v). k @ '': '' @ str_nat v) (quadrant_distribution sm)) @ NL)
          (context_header sm)"
    by (subst h) (metis append.assoc sublist_appendI)
  have s4: "sublist (''Sentiment by Role: '' @
          join_str '', '' (map (\<lambda>(r, sent). r @ '': '' @ format_1f sent @ ''%'')
                             (sentiment_by_role sm)) @ NL)
          (context_header sm)"
    by (subst h) (metis append.assoc sublist_appendI)
  have s5: "sublist (employee_line (emps ! i))
              (context_header sm @ concat (map employee_line (take 21 emps)))"
    if "i < min 21 (length emps)" for i
    using that sublist_concat_nth [of i "take 21 emps" employee_line "context_header sm"]
    by simp
  have s6: "employee_line emp =
            NL @ ''- '' @ name @ '' ('' @ r @ ''): '' @ format_1f score @ ''%, '' @ q"
    if "employee_name emp = Some name \<and> role emp = Some r \<and>
          sentiment_score emp = Some score \<and> quadrant emp = Some q" for emp name r score q
    using that by (simp add: employee_line_def dict_get_def)
  show ?thesis
    unfolding Let_def
    apply (intro conjI allI impI)
           apply (rule build_context_eq [OF assms])
          apply simp
         apply (rule sublist_in_prefix [OF s1])
        apply (rule sublist_in_prefix [OF s2])
       apply (rule sublist_in_prefix [OF s3])
      apply (rule sublist_in_prefix [OF s4])
     apply (erule s5)
    apply (erule s6)
    done
qed

text \<open>
  A summary of 3 employees with average sentiment 55.0 and the two sample records: the
  context holds both numbers and the line of each record.
\<close>

theorem build_context_content_witness:
  "get_analytics_summary (ex_methods (Inr True)) ex_analyzer = Inr ex_summary
   \<and> data ex_analyzer = Data ex_emps
   \<and> (\<exists>context. build_context (ex_methods (Inr True)) ex_analyzer =
          ([Call ''get_analytics_summary'' []], Inr context)
        \<and> sublist (''Total Employees: 3'' @ NL) context
        \<and> sublist (''Average Sentiment: 55.0%'' @ NL) context
        \<and> sublist (''Quadrant Distribution: Champion: 2, At Risk: 1'' @ NL) context
        \<and> sublist (''Sentiment by Role: Engineer: 72.0%, Analyst: 21.0%'' @ NL) context
        \<and> sublist (NL @ ''- Ann (Engineer): 72.0%, Champion'') context
        \<and> sublist (NL @ ''- Bob (Analyst): 21.0%, At Risk'') context)"
proof -
  have h1: "get_analytics_summary (ex_methods (Inr True)) ex_analyzer = Inr ex_summary"
    by (simp add: ex_methods_def)
  have h2: "data ex_analyzer = Data ex_emps"
    by (simp add: ex_analyzer_def)
  have ann: "employee_name ex_ann = Some ''Ann'' \<and> role ex_ann = Some ''Engineer'' \<and>
      sentiment_score ex_ann = Some 72 \<and> quadrant ex_ann = Some ''Champion''"
    by (simp add: ex_ann_def)
  have bob: "employee_name ex_bob = Some ''Bob'' \<and> role ex_bob = Some ''Analyst'' \<and>
      sentiment_score ex_bob = Some 21 \<and> quadrant ex_bob = Some ''At Risk''"
    by (simp add: ex_bob_def)
  note t = build_context_content [OF h1 h2, unfolded Let_def]
  note lines = t [THEN conjunct2, THEN conjunct2, THEN conjunct2, THEN conjunct2,
      THEN conjunct2, THEN conjunct2]
  have l0: "employee_line ex_ann = NL @ ''- Ann (Engineer): 72.0%, Champion''"
    using lines [THEN conjunct2, rule_format, OF ann] by (simp add: ex_strings)
  have l1: "employee_line ex_bob = NL @ ''- Bob (Analyst): 21.0%, At Risk''"
    using lines [THEN conjunct2, rule_format, OF bob] by (simp add: ex_strings)
  have i0: "sublist (employee_line (ex_emps ! 0))
      (context_header ex_summary @ concat (map employee_line (take 21 ex_emps)))"
    using lines [THEN conjunct1, rule_format, of 0] by (simp add: ex_emps_def)
  have i1: "sublist (employee_line (ex_emps ! 1))
      (context_header ex_summary @ concat (map employee_line (take 21 ex_emps)))"
    using lines [THEN conjunct1, rule_format, of 1] by (simp add: ex_emps_def)
  have n0: "ex_emps ! 0 = ex_ann" and n1: "ex_emps ! 1 = ex_bob"
    by (simp_all add: ex_emps_def)
  have c1: "sublist (''Total Employees: 3'' @ NL)
      (context_header ex_summary @ concat (map employee_line (take 21 ex_emps)))"
    using t [THEN conjunct2, THEN conjunct2, THEN conjunct1]
    by (simp add: ex_summary_def ex_strings)
  have c2: "sublist (''Average Sentiment: 55.0%'' @ NL)
      (context_header ex_summary @ concat (map employee_line (take 21 ex_emps)))"
    using t [THEN conjunct2, THEN conjunct2, THEN conjunct2, THEN conjunct1]
    by (simp add: ex_summary_def ex_strings)
  have c3: "sublist (''Quadrant Distribution: Champion: 2, At Risk: 1'' @ NL)
      (context_header ex_summary @ concat (map employee_line (take 21 ex_emps)))"
    using t [THEN conjunct2, THEN conjunct2, THEN conjunct2, THEN conjunct2, THEN conjunct1]
    by (simp add: ex_summary_def ex_strings)
  have c4: "sublist (''Sentiment by Role: Engineer: 72.0%, Analyst: 21.0%'' @ NL)
      (context_header ex_summary @ concat (map employee_line (take 21 ex_emps)))"
    using t [THEN conjunct2, THEN conjunct2, THEN conjunct2, THEN conjunct2, THEN conjunct2,
        THEN conjunct1]
    by (simp add: ex_summary_def ex_strings)
  have c5: "sublist (NL @ ''- Ann (Engineer): 72.0%, Champion'')
      (context_header ex_summary @ concat (map employee_line (take 21 ex_emps)))"
    by (rule i0 [unfolded n0 l0])
  have c6: "sublist (NL @ ''- Bob (Analyst): 21.0%, At Risk'')
      (context_header ex_summary @ concat (map employee_line (take 21 ex_emps)))"
    by (rule i1 [unfolded n1 l1])
  show ?thesis
    by (intro conjI h1 h2
          exI [of _ "context_header ex_summary @ concat (map employee_line (take 21 ex_emps))"]
          t [THEN conjunct1] c1 c2 c3 c4 c5 c6)
qed

subsection \<open>Reloading\<close>

text \<open>
  Claim C4. Records are loaded and the reload button is pressed, with \<open>load_data\<close> as the
  specification describes it. When the reload fails (the store refuses or delivers no
  rows, so that \<open>load_data\<close> returns false, or the call raises) the session after the pass is
  the session before it: the analyzer holds the record set loaded before, of the same
  length, and \<open>data_loaded\<close> is not assigned. On a false result the view ends with the
  warning, on an \<open>Exception\<close> with the error notice. In any pass of the view, with any
  \<open>load_data\<close>, \<open>data_loaded\<close> changes only when the button was pressed and \<open>load_data\<close>
  returned true, and then it is true.
\<close>

theorem reload_failure_keeps_state:
  assumes "analyzer s = Some an" and "data an = Data emps" and "emps \<noteq> []"
    and "data_metrics m an emps = (shown, None)"
    and "fst (load_data_spec outcome an) \<noteq> Inr True"
  shows "\<exists>evs s' x.
       data_management_section (m\<lparr>load_data := load_data_spec outcome\<rparr>) s True = (evs, s', x)
     \<and> s' = s
     \<and> data_loaded s' = data_loaded s
     \<and> (\<exists>an2. analyzer s' = Some an2 \<and> data an2 = Data emps)
     \<and> (outcome = Refused \<or> outcome = Fetched [] \<longrightarrow>
          x = None \<and>
          last evs = Warning (U_warning @ '' No data returned from MySQL or reload failed.''))
     \<and> (\<forall>e. outcome = Threw e \<and> is_Exception e \<longrightarrow>
          x = None \<and> last evs = Error (U_cross @ '' Failed to reload: '' @ exn_str e))
     \<and> (\<forall>m2 s2 clicked.
          data_loaded (fst (snd (data_management_section m2 s2 clicked))) \<noteq> data_loaded s2 \<longrightarrow>
          clicked \<and>
          data_loaded (fst (snd (data_management_section m2 s2 clicked))) = Some True \<and>
          (\<exists>a a'. analyzer s2 = Some a \<and> load_data m2 a = (Inr True, a')))"
proof -
  have only_success:
    "clicked \<and> data_loaded (fst (snd (data_management_section m2 s2 clicked))) = Some True \<and>
          (\<exists>a a'. analyzer s2 = Some a \<and> load_data m2 a = (Inr True, a'))"
    if "data_loaded (fst (snd (data_management_section m2 s2 clicked))) \<noteq> data_loaded s2"
    for m2 s2 clicked
    using that
    by (auto simp: data_management_section_def reload_action_def Let_def
             split: option.splits sum.splits prod.splits if_splits)
  have same: "s\<lparr>analyzer := Some an\<rparr> = s"
    using assms(1) by simp
  have metrics: "data_metrics (m\<lparr>load_data := load_data_spec outcome\<rparr>) an emps = (shown, None)"
    using assms(4) by (simp add: data_metrics_load_data)
  show ?thesis
  proof (cases outcome)
    case (Fetched rows)
    with assms(5) have "rows = []" by (auto split: if_splits)
    with Fetched show ?thesis
      using assms(1-3) metrics only_success
      by (auto simp: data_management_section_def reload_action_def get_data_def Let_def same)
  next
    case Refused
    then show ?thesis
      using assms(1-3) metrics only_success
      by (auto simp: data_management_section_def reload_action_def get_data_def Let_def same)
  next
    case (Threw e)
    then show ?thesis
      using assms(1-3) metrics only_success
      by (auto simp: data_management_section_def reload_action_def get_data_def Let_def same)
  qed
qed

text \<open>
  Ann and Bob are loaded. A refused load and a lost connection leave the session as it
  was, with the warning and the error notice; a load that delivers Bob alone sets
  \<open>data_loaded\<close>.
\<close>

theorem reload_failure_keeps_state_witness:
  "analyzer ex_session = Some ex_analyzer \<and> data ex_analyzer = Data ex_emps \<and> ex_emps \<noteq> []
   \<and> fst (load_data_spec Refused ex_analyzer) \<noteq> Inr True
   \<and> fst (load_data_spec (Threw (Raised ''connection lost'')) ex_analyzer) \<noteq> Inr True
   \<and> is_Exception (Raised ''connection lost'')
   \<and> (\<exists>evs. data_management_section
               ((ex_methods (Inr True))\<lparr>load_data := load_data_spec Refused\<rparr>) ex_session True =
          (evs, ex_session, None)
        \<and> last evs = Warning (U_warning @ '' No data returned from MySQL or reload failed.''))
   \<and> (\<exists>evs. data_management_section
               ((ex_methods (Inr True))
                  \<lparr>load_data := load_data_spec (Threw (Raised ''connection lost''))\<rparr>)
               ex_session True =
          (evs, ex_session, None)
        \<and> last evs = Error (U_cross @ '' Failed to reload: connection lost''))
   \<and> data_loaded (fst (snd (data_management_section
          ((ex_methods (Inr True))\<lparr>load_data := load_data_spec (Fetched [ex_bob])\<rparr>)
          ex_session True)))
        \<noteq> data_loaded ex_session
   \<and> data_loaded (fst (snd (data_management_section
          ((ex_methods (Inr True))\<lparr>load_data := load_data_spec (Fetched [ex_bob])\<rparr>)
          ex_session True)))
        = Some True"
proof -
  let ?m = "ex_methods (Inr True)"
  have h1: "analyzer ex_session = Some ex_analyzer" by (simp add: ex_session_def)
  have h2: "data ex_analyzer = Data ex_emps" by (simp add: ex_analyzer_def)
  have h3: "ex_emps \<noteq> []" by (simp add: ex_emps_def)
  obtain sh where m: "data_metrics ?m ex_analyzer ex_emps = (sh, None)"
    using ex_metrics by blast
  have f1: "fst (load_data_spec Refused ex_analyzer) \<noteq> Inr True" by simp
  have f2: "fst (load_data_spec (Threw (Raised ''connection lost'')) ex_analyzer) \<noteq> Inr True"
    by simp
  have ex: "is_Exception (Raised ''connection lost'')" by simp
  note t1 = reload_failure_keeps_state [OF h1 h2 h3 m f1]
  note t2 = reload_failure_keeps_state [OF h1 h2 h3 m f2]
  have w: "\<exists>evs. data_management_section (?m\<lparr>load_data := load_data_spec Refused\<rparr>)
               ex_session True = (evs, ex_session, None)
        \<and> last evs = Warning (U_warning @ '' No data returned from MySQL or reload failed.'')"
    using t1 by auto
  have e: "\<exists>evs. data_management_section
               (?m\<lparr>load_data := load_data_spec (Threw (Raised ''connection lost''))\<rparr>)
               ex_session True = (evs, ex_session, None)
        \<and> last evs = Error (U_cross @ '' Failed to reload: connection lost'')"
    using t2 by auto
  have changed:
    "data_loaded (fst (snd (data_management_section
          (?m\<lparr>load_data := load_data_spec (Fetched [ex_bob])\<rparr>) ex_session True)))
        \<noteq> data_loaded ex_session"
    by (simp add: data_management_section_def reload_action_def get_data_def data_metrics_def
          ex_session_def ex_analyzer_def ex_methods_def ex_emps_def Let_def)
  have only:
    "data_loaded (fst (snd (data_management_section
          (?m\<lparr>load_data := load_data_spec (Fetched [ex_bob])\<rparr>) ex_session True)))
        = Some True"
    using t1 changed by blast
  show ?thesis
    by (intro conjI h1 h2 h3 f1 f2 ex w e changed only)
qed

subsection \<open>The quadrant filter and its table\<close>

text \<open>
  Claim C5. For every quadrant name and every loaded record set, the filter returns
  exactly the records whose \<open>quadrant\<close> field equals the name, in load order; their number
  is the count of that quadrant in the quadrant distribution. An empty result is shown as
  the notice "No employees found in this category." and nothing else; a non-empty one as
  the rows of the returned records in their order, with no such notice. The row of a
  record has four columns: its id, its role, its sentiment score with one decimal and a
  percent sign, and its content, with "-" for a missing id, role or content and 0 for a
  missing score.
\<close>

theorem quadrant_filter_exact:
  assumes "data an = Data emps"
  shows "\<exists>found. get_employees_by_quadrant (Some an) q = Inr found
     \<and> found = filter (\<lambda>emp. quadrant emp = Some q) emps
     \<and> set found = {emp \<in> set emps. quadrant emp = Some q}
     \<and> length found = quadrant_count emps q
     \<and> (found = [] \<longrightarrow> display_employees found = [Info ''No employees found in this category.''])
     \<and> (found \<noteq> [] \<longrightarrow> display_employees found = concat (map display_row found)
           \<and> (\<forall>msg. Info msg \<notin> set (display_employees found)))
     \<and> (\<forall>emp. display_row emp =
           [Columns [1, 2, 1, 6],
            InCol 0 (Markdown (PStr (''**ID:** '' @
               (case emp_id emp of None \<Rightarrow> ''-'' | Some i \<Rightarrow> str_int i)))),
            InCol 1 (Markdown (PStr (''**Role:** '' @
               (case role emp of None \<Rightarrow> ''-'' | Some r \<Rightarrow> r)))),
            InCol 2 (Markdown (PStr (''**Sentiment:** '' @
               format_1f (case sentiment_score emp of None \<Rightarrow> 0 | Some sc \<Rightarrow> sc) @ ''%''))),
            InCol 3 (Write (case content emp of None \<Rightarrow> ''-'' | Some c \<Rightarrow> c))])"
  using get_employees_filter [OF assms, of q]
  by (auto simp: quadrant_count_def display_employees_def display_no_info display_row_def
        dict_get_def)

text \<open>
  From Ann and Bob the filter for "Champion" returns Ann, one record as the quadrant count
  says, shown as the row 1, Engineer, 72.0%, "Great team"; the filter for "Concerned but
  active" returns nothing and the notice is shown.
\<close>

theorem quadrant_filter_exact_witness:
  "data ex_analyzer = Data ex_emps
   \<and> get_employees_by_quadrant (Some ex_analyzer) ''Champion'' = Inr [ex_ann]
   \<and> quadrant_count ex_emps ''Champion'' = 1
   \<and> display_employees [ex_ann] =
       [Columns [1, 2, 1, 6],
        InCol 0 (Markdown (PStr ''**ID:** 1'')),
        InCol 1 (Markdown (PStr ''**Role:** Engineer'')),
        InCol 2 (Markdown (PStr ''**Sentiment:** 72.0%'')),
        InCol 3 (Write ''Great team'')]
   \<and> get_employees_by_quadrant (Some ex_analyzer) ''Concerned but active'' = Inr []
   \<and> display_employees [] = [Info ''No employees found in this category.'']"
proof -
  have h: "data ex_analyzer = Data ex_emps" by (simp add: ex_analyzer_def)
  have c: "filter (\<lambda>emp. quadrant emp = Some ''Champion'') ex_emps = [ex_ann]"
    by (simp add: ex_emps_def ex_ann_def ex_bob_def)
  have n: "filter (\<lambda>emp. quadrant emp = Some ''Concerned but active'') ex_emps = []"
    by (simp add: ex_emps_def ex_ann_def ex_bob_def)
  have f: "emp_id ex_ann = Some 1" "role ex_ann = Some ''Engineer''"
    "sentiment_score ex_ann = Some 72" "content ex_ann = Some ''Great team''"
    by (simp_all add: ex_ann_def)
  from quadrant_filter_exact [OF h, of "''Champion''"] obtain found where
    champ: "get_employees_by_quadrant (Some ex_analyzer) ''Champion'' = Inr found"
      "found = [ex_ann]" "length found = quadrant_count ex_emps ''Champion''"
      "found \<noteq> [] \<longrightarrow> display_employees found = concat (map display_row found)"
    and row: "\<forall>emp. display_row emp =
           [Columns [1, 2, 1, 6],
            InCol 0 (Markdown (PStr (''**ID:** '' @
               (case emp_id emp of None \<Rightarrow> ''-'' | Some i \<Rightarrow> str_int i)))),
            InCol 1 (Markdown (PStr (''**Role:** '' @
               (case role emp of None \<Rightarrow> ''-'' | Some r \<Rightarrow> r)))),
            InCol 2 (Markdown (PStr (''**Sentiment:** '' @
               format_1f (case sentiment_score emp of None \<Rightarrow> 0 | Some sc \<Rightarrow> sc) @ ''%''))),
            InCol 3 (Write (case content emp of None \<Rightarrow> ''-'' | Some c \<Rightarrow> c))]"
    unfolding c by blast
  from quadrant_filter_exact [OF h, of "''Concerned but active''"] obtain none where
    conc: "get_employees_by_quadrant (Some ex_analyzer) ''Concerned but active'' = Inr none"
      "none = []"
      "none = [] \<longrightarrow> display_employees none = [Info ''No employees found in this category.'']"
    unfolding n by blast
  have r: "display_row ex_ann =
       [Columns [1, 2, 1, 6],
        InCol 0 (Markdown (PStr ''**ID:** 1'')),
        InCol 1 (Markdown (PStr ''**Role:** Engineer'')),
        InCol 2 (Markdown (PStr ''**Sentiment:** 72.0%'')),
        InCol 3 (Write ''Great team'')]"
    using row [rule_format, of ex_ann] by (simp add: f ex_strings)
  show ?thesis
    using h champ conc r by simp
qed

text \<open>
  Claim C10. \<open>get_employees_by_quadrant\<close> needs no loaded analyzer: without an analyzer,
  without a \<open>data\<close> attribute, and with \<open>data\<close> being \<open>None\<close> or empty it returns the empty
  list, and for no analyzer and quadrant name does it raise.
\<close>

theorem get_employees_by_quadrant_total:
  "get_employees_by_quadrant None q = Inr []
   \<and> get_employees_by_quadrant (Some (an\<lparr>data := NoDataAttr\<rparr>)) q = Inr []
   \<and> get_employees_by_quadrant (Some (an\<lparr>data := DataNone\<rparr>)) q = Inr []
   \<and> get_employees_by_quadrant (Some (an\<lparr>data := Data []\<rparr>)) q = Inr []
   \<and> (\<exists>emps. get_employees_by_quadrant a q = Inr emps)"
  by (auto simp: get_employees_by_quadrant_def hasattr_data_def get_data_def
           split: option.splits data_attr.splits)

subsection \<open>The dashboard\<close>

text \<open>
  Claim C6. When the dashboard is rendered from a summary, the metric of the average
  sentiment carries the label "Healthy" exactly when the average is above 60 and "Needs
  Attention" otherwise; in the chart of the sentiment by role, the bar of a role is green
  (#28a745) exactly when its sentiment is above 70, amber (#ffc107) exactly when it is
  above 50 and at most 70, and red (#dc3545) exactly when it is at most 50.
\<close>

theorem dashboard_label_and_colors:
  assumes "analyzer s = Some an" and "data an = Data emps" and "emps \<noteq> []"
    and "get_analytics_summary m an = Inr sm"
  shows "\<exists>evs label. analytics_dashboard m s = (evs, s, None)
     \<and> InCol 1 (Metric (U_smile @ '' Average Sentiment'')
                 (format_1f (average_sentiment sm) @ ''%'') (Some label)) \<in> set evs
     \<and> (label = ''Healthy'' \<longleftrightarrow> 60 < average_sentiment sm)
     \<and> (label = ''Needs Attention'' \<longleftrightarrow> \<not> 60 < average_sentiment sm)
     \<and> (sentiment_by_role sm \<noteq> [] \<longrightarrow>
         (\<exists>colors texts.
            InCol 1 (BarChart (map fst (sentiment_by_role sm)) (map snd (sentiment_by_role sm))
                       colors texts) \<in> set evs
            \<and> length colors = length (sentiment_by_role sm)
            \<and> (\<forall>i < length (sentiment_by_role sm).
                 (colors ! i = ''#28a745'' \<longleftrightarrow> 70 < snd (sentiment_by_role sm ! i))
               \<and> (colors ! i = ''#ffc107'' \<longleftrightarrow>
                    50 < snd (sentiment_by_role sm ! i) \<and> snd (sentiment_by_role sm ! i) \<le> 70)
               \<and> (colors ! i = ''#dc3545'' \<longleftrightarrow> snd (sentiment_by_role sm ! i) \<le> 50))))"
proof -
  have run: "analytics_dashboard m s =
      (Call ''get_analytics_summary'' [] # dashboard_body sm, s, None)"
    using assms by (simp add: analytics_dashboard_def get_data_def data_truthy_def)
  have metric: "InCol 1 (Metric (U_smile @ '' Average Sentiment'')
                 (format_1f (average_sentiment sm) @ ''%'')
                 (Some (sentiment_label (average_sentiment sm))))
        \<in> set (Call ''get_analytics_summary'' [] # dashboard_body sm)"
    by (simp add: dashboard_body_def)
  have label:
    "(sentiment_label (average_sentiment sm) = ''Healthy'' \<longleftrightarrow> 60 < average_sentiment sm)
     \<and> (sentiment_label (average_sentiment sm) = ''Needs Attention'' \<longleftrightarrow>
          \<not> 60 < average_sentiment sm)"
    by (simp add: sentiment_label_def)
  have bars: "InCol 1 (BarChart (map fst (sentiment_by_role sm)) (map snd (sentiment_by_role sm))
                  (map bar_color (map snd (sentiment_by_role sm)))
                  (map (\<lambda>s. format_1f s @ ''%'') (map snd (sentiment_by_role sm))))
        \<in> set (Call ''get_analytics_summary'' [] # dashboard_body sm)"
    if "sentiment_by_role sm \<noteq> []"
    using that by (simp add: dashboard_body_def Let_def)
  show ?thesis
    unfolding run
    apply (intro exI [of _ "Call ''get_analytics_summary'' [] # dashboard_body sm"]
                 exI [of _ "sentiment_label (average_sentiment sm)"] conjI impI)
        apply (rule refl)
       apply (rule metric)
      apply (rule label [THEN conjunct1])
     apply (rule label [THEN conjunct2])
    apply (rule exI [of _ "map bar_color (map snd (sentiment_by_role sm))"])
    apply (rule exI [of _ "map (\<lambda>s. format_1f s @ ''%'') (map snd (sentiment_by_role sm))"])
    apply (intro conjI allI impI)
        apply (erule bars)
       apply simp
      apply (simp add: bar_color_cases)
     apply (simp add: bar_color_cases)
    apply (simp add: bar_color_cases)
    done
qed

text \<open>
  An average of 55.0 is labelled "Needs Attention"; the bar of 72 is green and the bar of
  21 is red.
\<close>

theorem dashboard_label_and_colors_witness:
  "analyzer ex_session = Some ex_analyzer \<and> data ex_analyzer = Data ex_emps \<and> ex_emps \<noteq> []
   \<and> get_analytics_summary (ex_methods (Inr True)) ex_analyzer = Inr ex_summary
   \<and> sentiment_by_role ex_summary \<noteq> []
   \<and> InCol 1 (Metric (U_smile @ '' Average Sentiment'') ''55.0%'' (Some ''Needs Attention''))
       \<in> set (fst (analytics_dashboard (ex_methods (Inr True)) ex_session))
   \<and> (\<exists>texts. InCol 1 (BarChart [''Engineer'', ''Analyst''] [72, 21] [''#28a745'', ''#dc3545''] texts)
       \<in> set (fst (analytics_dashboard (ex_methods (Inr True)) ex_session)))"
proof -
  have h1: "analyzer ex_session = Some ex_analyzer" by (simp add: ex_session_def)
  have h2: "data ex_analyzer = Data ex_emps" by (simp add: ex_analyzer_def)
  have h3: "ex_emps \<noteq> []" by (simp add: ex_emps_def)
  have h4: "get_analytics_summary (ex_methods (Inr True)) ex_analyzer = Inr ex_summary"
    by (simp add: ex_methods_def)
  have h5: "sentiment_by_role ex_summary \<noteq> []" by (simp add: ex_summary_def)
  have v: "average_sentiment ex_summary = 55"
    "sentiment_by_role ex_summary = [(''Engineer'', 72), (''Analyst'', 21)]"
    by (simp_all add: ex_summary_def)
  obtain evs label where
    run: "analytics_dashboard (ex_methods (Inr True)) ex_session = (evs, ex_session, None)"
    and metric: "InCol 1 (Metric (U_smile @ '' Average Sentiment'')
                 (format_1f (average_sentiment ex_summary) @ ''%'') (Some label)) \<in> set evs"
    and label: "label = ''Needs Attention'' \<longleftrightarrow> \<not> 60 < average_sentiment ex_summary"
    and bars: "sentiment_by_role ex_summary \<noteq> [] \<longrightarrow>
         (\<exists>colors texts.
            InCol 1 (BarChart (map fst (sentiment_by_role ex_summary))
                       (map snd (sentiment_by_role ex_summary)) colors texts) \<in> set evs
            \<and> length colors = length (sentiment_by_role ex_summary)
            \<and> (\<forall>i < length (sentiment_by_role ex_summary).
                 (colors ! i = ''#28a745'' \<longleftrightarrow> 70 < snd (sentiment_by_role ex_summary ! i))
               \<and> (colors ! i = ''#ffc107'' \<longleftrightarrow>
                    50 < snd (sentiment_by_role ex_summary ! i) \<and>
                    snd (sentiment_by_role ex_summary ! i) \<le> 70)
               \<and> (colors ! i = ''#dc3545'' \<longleftrightarrow> snd (sentiment_by_role ex_summary ! i) \<le> 50)))"
    using dashboard_label_and_colors [OF h1 h2 h3 h4] by blast
  have lab: "label = ''Needs Attention''" using label by (simp add: v)
  from bars h5 obtain colors texts where
    chart: "InCol 1 (BarChart [''Engineer'', ''Analyst''] [72, 21] colors texts) \<in> set evs"
    and len: "length colors = 2"
    and col: "\<forall>i < 2.
        (colors ! i = ''#28a745'' \<longleftrightarrow>
           70 < snd ([(''Engineer'', 72), (''Analyst'', 21 :: rat)] ! i))
      \<and> (colors ! i = ''#dc3545'' \<longleftrightarrow>
           snd ([(''Engineer'', 72), (''Analyst'', 21 :: rat)] ! i) \<le> 50)"
    unfolding v by auto
  from col have c0: "colors ! 0 = ''#28a745''" by (auto dest: spec [of _ 0])
  from col have c1: "colors ! 1 = ''#dc3545''" by (auto dest: spec [of _ 1])
  from len obtain a b where ab: "colors = [a, b]"
    by (metis (no_types) Suc_length_conv length_0_conv numeral_2_eq_2)
  with c0 c1 have colors: "colors = [''#28a745'', ''#dc3545'']" by simp
  show ?thesis
    using h1 h2 h3 h4 h5 metric chart
    unfolding run lab colors v by (auto simp: ex_strings)
qed

subsection \<open>The guards of the views\<close>

text \<open>
  Claim C7. When the session holds no analyzer, or an analyzer whose record set is \<open>None\<close>
  or empty, the dashboard and the AI question interface each show their placeholder and
  nothing else: the trace holds no call of \<open>get_analytics_summary\<close> or \<open>analyze_with_ai\<close>,
  so no context is built, and the session is left as it is.
\<close>

theorem no_data_placeholders:
  assumes "analyzer s = None \<or>
           (\<exists>an. analyzer s = Some an \<and> (data an = DataNone \<or> data an = Data []))"
  shows "analytics_dashboard m s =
           ([Info (U_chart @ '' Load data from MySQL to see analytics dashboard'')], s, None)
       \<and> ai_analysis_interface lower m s inp =
           ([Info (U_robot @ '' Load data from MySQL to enable AI analysis'')], s, None)"
  using assms
  by (auto simp: analytics_dashboard_def ai_analysis_interface_def get_data_def data_truthy_def)

theorem no_data_placeholders_witness:
  "analyzer \<lparr>analyzer = None, data_loaded = Some False\<rparr> = None
   \<and> analytics_dashboard (ex_methods (Inr True)) \<lparr>analyzer = None, data_loaded = Some False\<rparr> =
       ([Info (U_chart @ '' Load data from MySQL to see analytics dashboard'')],
        \<lparr>analyzer = None, data_loaded = Some False\<rparr>, None)
   \<and> data (ex_analyzer\<lparr>data := Data []\<rparr>) = Data []
   \<and> ai_analysis_interface ascii_lower (ex_methods (Inr True))
        \<lparr>analyzer = Some (ex_analyzer\<lparr>data := Data []\<rparr>), data_loaded = Some False\<rparr>
        (ex_inputs ''Show me at risk employees'') =
       ([Info (U_robot @ '' Load data from MySQL to enable AI analysis'')],
        \<lparr>analyzer = Some (ex_analyzer\<lparr>data := Data []\<rparr>), data_loaded = Some False\<rparr>, None)"
  using no_data_placeholders [of "\<lparr>analyzer = None, data_loaded = Some False\<rparr>"
          "ex_methods (Inr True)" ascii_lower "ex_inputs ''Show me at risk employees''"]
    no_data_placeholders
      [of "\<lparr>analyzer = Some (ex_analyzer\<lparr>data := Data []\<rparr>), data_loaded = Some False\<rparr>"
          "ex_methods (Inr True)" ascii_lower "ex_inputs ''Show me at risk employees''"]
  by simp

subsection \<open>The status panel\<close>

text \<open>
  Claim C9. The status panel reads the session and leaves it as it is. It shows three
  yes/no signals, each by the presence of its own line: "Environment configured" exactly
  when the analyzer is initialized, "Gemini AI connected" exactly when the analyzer has an
  AI client, "Vector database connected" exactly when it has a vector client. A missing
  vector client of an initialized analyzer is shown as an information notice, and the
  panel never shows an error.
\<close>

theorem status_panel_signals:
  "\<exists>evs. show_environment_status s = (evs, s, None)
     \<and> (Sidebar (Success (U_check @ '' Environment configured'')) \<in> set evs
          \<longleftrightarrow> analyzer s \<noteq> None)
     \<and> (Sidebar (Warning (U_info @ '' Analyzer not initialized'')) \<in> set evs
          \<longleftrightarrow> analyzer s = None)
     \<and> (Sidebar (Success (U_check @ '' Gemini AI connected'')) \<in> set evs
          \<longleftrightarrow> (\<exists>an. analyzer s = Some an \<and> py_truthy (dict_get (gemini_client an) PNone)))
     \<and> (Sidebar (Success (U_check @ '' Vector database connected'')) \<in> set evs
          \<longleftrightarrow> (\<exists>an. analyzer s = Some an \<and> py_truthy (dict_get (qdrant_client an) PNone)))
     \<and> (Sidebar (Info (U_info @ '' Vector database offline (optional)'')) \<in> set evs
          \<longleftrightarrow> (\<exists>an. analyzer s = Some an \<and> \<not> py_truthy (dict_get (qdrant_client an) PNone)))
     \<and> (\<forall>msg. Sidebar (Error msg) \<notin> set evs \<and> Error msg \<notin> set evs)"
  by (cases "analyzer s") (auto simp: show_environment_status_def)

end
